theory Spec2Isabelle
  imports Complex_Main "HOL-Library.Word"
begin

unbundle bit_operations_syntax

section \<open>JavaScript numbers\<close>

text \<open>
  Every number of the game logic is a JavaScript double that holds an integer (positions,
  counters, scores, generator states) or a time in milliseconds. Integers are modelled as
  \<open>int\<close>, times and quotients as \<open>rat\<close>. Double arithmetic on integers is exact up to
  \<open>2 ^ 53\<close>; beyond that the result is rounded to 53 significant bits, ties to even, which
  \<open>round53\<close> writes out (the generator multiplies a seed such as \<open>Date.now()\<close> by 1664525,
  which passes \<open>2 ^ 53\<close>). A result that rounds to \<open>2 ^ 1024\<close> or more in magnitude is
  \<open>Infinity\<close> or \<open>-Infinity\<close>: \<open>fl\<close> returns \<open>None\<close> for it.
\<close>

function bitlen :: "int \<Rightarrow> nat" where
  "bitlen k = (if k \<le> 0 then 0 else Suc (bitlen (k div 2)))"
  by pat_completeness auto
termination
  by (relation "measure nat") auto

declare bitlen.simps [simp del]

definition round53 :: "int \<Rightarrow> int" where
  "round53 x =
     (if \<bar>x\<bar> \<le> 2 ^ 53 then x
      else
        let e = bitlen \<bar>x\<bar> - 53;
            q = \<bar>x\<bar> div 2 ^ e;
            r = \<bar>x\<bar> mod 2 ^ e;
            h = 2 ^ (e - 1)
        in sgn x * (if r > h \<or> (r = h \<and> odd q) then q + 1 else q) * 2 ^ e)"

definition fl :: "int \<Rightarrow> int option" where
  "fl x = (let r = round53 x in if \<bar>r\<bar> < 2 ^ 1024 then Some r else None)"

text \<open>An integer is a double when rounding leaves it as it is.\<close>

definition is_double :: "int \<Rightarrow> bool" where
  "is_double x = (fl x = Some x)"

text \<open>The operator \<open>%\<close>: the remainder takes the sign of the dividend.\<close>

definition js_rem :: "int \<Rightarrow> int \<Rightarrow> int" where
  "js_rem a b = sgn a * (\<bar>a\<bar> mod \<bar>b\<bar>)"

section \<open>random.js\<close>

text \<open>
  \<open>createRNG\<close> closes over one mutable variable \<open>state\<close>; the model passes that variable
  explicitly. The variable holds an integer, or \<open>NaN\<close>: when \<open>state * 1664525\<close> overflows, the
  product is an infinity, adding 1013904223 leaves it one, and the remainder of an infinity is
  \<open>NaN\<close>; from then on every product, sum and remainder is \<open>NaN\<close>.
\<close>

datatype jsnum = Finite int | NaN

type_synonym rng = jsnum

definition createRNG :: "int \<Rightarrow> rng" where
  "createRNG seed = Finite seed"

definition rng_step :: "rng \<Rightarrow> rng" where
  "rng_step state =
     (case state of
        NaN \<Rightarrow> NaN
      | Finite s \<Rightarrow>
          (case fl (s * 1664525) of
             None \<Rightarrow> NaN
           | Some p \<Rightarrow>
               (case fl (p + 1013904223) of
                  None \<Rightarrow> NaN
                | Some q \<Rightarrow> Finite (js_rem q 4294967296))))"

text \<open>
  \<open>rng_next\<close> returns the value of \<open>next()\<close> and the new state. Dividing an integer state by
  \<open>2 ^ 32\<close> is exact in doubles, so the returned value is the rational \<open>state / 2 ^ 32\<close>; for
  the state \<open>NaN\<close> the returned value is \<open>NaN\<close>, here \<open>None\<close>.
\<close>

definition rng_next :: "rng \<Rightarrow> rat option \<times> rng" where
  "rng_next state =
     (let state' = rng_step state
      in (case state' of NaN \<Rightarrow> None | Finite s \<Rightarrow> Some (of_int s / 4294967296), state'))"

definition rng_seed :: "rng \<Rightarrow> jsnum" where
  "rng_seed state = state"

text \<open>
  \<open>choice\<close>: \<open>array[Math.floor(rng.next() * array.length)]\<close>. An index outside the array
  reads \<open>undefined\<close>, here \<open>None\<close>, and so does the index \<open>NaN\<close>.
\<close>

definition choice :: "'a list \<Rightarrow> rng \<Rightarrow> 'a option \<times> rng" where
  "choice array r =
     (let (v, r') = rng_next r
      in case v of
           None \<Rightarrow> (None, r')
         | Some x \<Rightarrow>
             (let index = \<lfloor>x * of_nat (length array)\<rfloor>
              in (if 0 \<le> index \<and> index < int (length array)
                  then Some (array ! nat index) else None, r')))"

text \<open>The state after \<open>n\<close> calls of \<open>next()\<close>, and the value the \<open>n\<close>-th call returns.\<close>

definition rng_state_after :: "int \<Rightarrow> nat \<Rightarrow> rng" where
  "rng_state_after seed n = (rng_step ^^ n) (createRNG seed)"

definition rng_output :: "int \<Rightarrow> nat \<Rightarrow> rat option" where
  "rng_output seed n = fst (rng_next (rng_state_after seed n))"

section \<open>game-state.js: pieces\<close>

datatype kind = KI | KJ | KL | KO | KS | KT | KZ | FLOAT | PLUS | KU | DOT

datatype error =
    UnknownPieceType
  | RNGNotInitialized
  | NoPiecesAvailable
  | TypeError
  | ReferenceError
  | ScoreNaN

text \<open>
  A piece; the fields \<open>type\<close> and \<open>generation\<close> of the source are \<open>ptype\<close> and
  \<open>pgeneration\<close> here, and the kinds \<open>'I'\<close>, \<open>'J'\<close>, ... are \<open>KI\<close>, \<open>KJ\<close>, ....
  \<open>createPiece\<close> sets no \<open>generation\<close>; the engine adds it when the piece becomes the
  current one, so the field is optional.
\<close>

record piece =
  ptype :: kind
  shape :: "nat list list"
  color :: string
  gridX :: int
  gridY :: int
  rotation :: int
  upMovesUsed :: int
  pgeneration :: "int option"

definition PIECE_shape :: "kind \<Rightarrow> nat list list" where
  "PIECE_shape k = (case k of
      KI \<Rightarrow> [[0,0,0,0], [1,1,1,1], [0,0,0,0], [0,0,0,0]]
    | KJ \<Rightarrow> [[1,0,0], [1,1,1], [0,0,0]]
    | KL \<Rightarrow> [[0,0,1], [1,1,1], [0,0,0]]
    | KO \<Rightarrow> [[1,1], [1,1]]
    | KS \<Rightarrow> [[0,1,1], [1,1,0], [0,0,0]]
    | KT \<Rightarrow> [[0,1,0], [1,1,1], [0,0,0]]
    | KZ \<Rightarrow> [[1,1,0], [0,1,1], [0,0,0]]
    | FLOAT \<Rightarrow> [[1]]
    | PLUS \<Rightarrow> [[0,1,0], [1,1,1], [0,1,0]]
    | KU \<Rightarrow> [[1,0,1], [1,0,1], [1,1,1]]
    | DOT \<Rightarrow> [[1,1,0], [1,0,1], [0,1,1]])"

definition PIECE_color :: "kind \<Rightarrow> string" where
  "PIECE_color k = (case k of
      KI \<Rightarrow> ''#00FFFF'' | KJ \<Rightarrow> ''#0000FF'' | KL \<Rightarrow> ''#FF7F00'' | KO \<Rightarrow> ''#FFFF00''
    | KS \<Rightarrow> ''#00FF00'' | KT \<Rightarrow> ''#8A2BE2'' | KZ \<Rightarrow> ''#FF0000'' | FLOAT \<Rightarrow> ''#FFFFFF''
    | PLUS \<Rightarrow> ''#FFD700'' | KU \<Rightarrow> ''#FF69B4'' | DOT \<Rightarrow> ''#00CED1'')"

definition PIECE_spawn :: "kind \<Rightarrow> int \<times> int" where
  "PIECE_spawn k = (case k of
      KI \<Rightarrow> (3, -2) | KJ \<Rightarrow> (3, -2) | KL \<Rightarrow> (3, -2) | KO \<Rightarrow> (4, -2)
    | KS \<Rightarrow> (3, -2) | KT \<Rightarrow> (3, -2) | KZ \<Rightarrow> (3, -2) | FLOAT \<Rightarrow> (4, -1)
    | PLUS \<Rightarrow> (3, -3) | KU \<Rightarrow> (3, -3) | DOT \<Rightarrow> (3, -3))"

text \<open>
  \<open>createPiece\<close> throws for a type that is not in the table; every \<open>kind\<close> is in it, so
  the only failing argument is \<open>undefined\<close> (\<open>None\<close>), which \<open>choice\<close> can produce.
\<close>

definition createPiece :: "kind \<Rightarrow> piece" where
  "createPiece k =
     \<lparr>ptype = k, shape = PIECE_shape k, color = PIECE_color k,
      gridX = fst (PIECE_spawn k), gridY = snd (PIECE_spawn k),
      rotation = 0, upMovesUsed = 0, pgeneration = None\<rparr>"

definition createPiece_opt :: "kind option \<Rightarrow> error + piece" where
  "createPiece_opt t = (case t of None \<Rightarrow> Inl UnknownPieceType | Some k \<Rightarrow> Inr (createPiece k))"

section \<open>physics-pure.js\<close>

text \<open>
  The board is 20 rows of 10 cells; a cell is \<open>null\<close> (\<open>None\<close>) or a colour string. The
  functions below index the board only at rows \<open>0..19\<close> and columns \<open>0..9\<close>, which exist on
  every board the game builds (\<open>wf_board\<close>).
\<close>

type_synonym cell = "string option"
type_synonym board = "cell list list"

definition wf_board :: "board \<Rightarrow> bool" where
  "wf_board b = (length b = 20 \<and> list_all (\<lambda>row. length row = 10) b)"

definition canPieceFitAt :: "board \<Rightarrow> piece \<Rightarrow> int \<Rightarrow> int \<Rightarrow> bool" where
  "canPieceFitAt b p x y =
     list_all (\<lambda>(dy, row).
       list_all (\<lambda>(dx, c).
         if c = 0 then True
         else
           let boardX = x + int dx; boardY = y + int dy in
           if boardX < 0 \<or> boardX \<ge> 10 then False
           else if boardY < 0 then True
           else if boardY \<ge> 20 then False
           else b ! nat boardY ! nat boardX = None)
         (enumerate 0 row))
       (enumerate 0 (shape p))"

function calculateShadow_loop :: "board \<Rightarrow> piece \<Rightarrow> int \<Rightarrow> int" where
  "calculateShadow_loop b p shadowY =
     (if shadowY < 20 \<and> canPieceFitAt b p (gridX p) (shadowY + 1)
      then calculateShadow_loop b p (shadowY + 1)
      else shadowY)"
  by pat_completeness auto
termination
  by (relation "measure (\<lambda>(b, p, shadowY). nat (20 - shadowY))") auto

declare calculateShadow_loop.simps [simp del]

definition calculateShadow :: "board \<Rightarrow> piece \<Rightarrow> int" where
  "calculateShadow b p = calculateShadow_loop b p (gridY p)"

definition isResting :: "board \<Rightarrow> piece \<Rightarrow> bool" where
  "isResting b p = (gridY p = calculateShadow b p)"

text \<open>
  \<open>rotatePiece\<close> builds an \<open>n \<times> n\<close> matrix, \<open>n\<close> the number of rows of the shape; every
  shape of the piece table is square, so every read is in range.
\<close>

definition rotatePiece :: "piece \<Rightarrow> int \<Rightarrow> piece" where
  "rotatePiece p direction =
     (let n = length (shape p);
          rotated = map (\<lambda>i. map (\<lambda>j.
                      if direction = 1 then shape p ! (n - 1 - j) ! i
                      else shape p ! j ! (n - 1 - i)) [0..<n]) [0..<n]
      in p\<lparr>shape := rotated, rotation := js_rem (rotation p + direction + 4) 4\<rparr>)"

definition kicks_I :: "int \<Rightarrow> int \<Rightarrow> (int \<times> int) list" where
  "kicks_I fromRot toRot =
     (if (fromRot, toRot) = (0, 1) then [(-2, 0), (1, 0), (-2, -1), (1, 2)]
      else if (fromRot, toRot) = (1, 0) then [(2, 0), (-1, 0), (2, 1), (-1, -2)]
      else if (fromRot, toRot) = (1, 2) then [(-1, 0), (2, 0), (-1, 2), (2, -1)]
      else if (fromRot, toRot) = (2, 1) then [(1, 0), (-2, 0), (1, -2), (-2, 1)]
      else if (fromRot, toRot) = (2, 3) then [(2, 0), (-1, 0), (2, 1), (-1, -2)]
      else if (fromRot, toRot) = (3, 2) then [(-2, 0), (1, 0), (-2, -1), (1, 2)]
      else if (fromRot, toRot) = (3, 0) then [(1, 0), (-2, 0), (1, -2), (-2, 1)]
      else if (fromRot, toRot) = (0, 3) then [(-1, 0), (2, 0), (-1, 2), (2, -1)]
      else [])"

definition kicks_default :: "int \<Rightarrow> int \<Rightarrow> (int \<times> int) list" where
  "kicks_default fromRot toRot =
     (if (fromRot, toRot) = (0, 1) then [(-1, 0), (-1, 1), (0, -2), (-1, -2)]
      else if (fromRot, toRot) = (1, 0) then [(1, 0), (1, -1), (0, 2), (1, 2)]
      else if (fromRot, toRot) = (1, 2) then [(1, 0), (1, -1), (0, 2), (1, 2)]
      else if (fromRot, toRot) = (2, 1) then [(-1, 0), (-1, 1), (0, -2), (-1, -2)]
      else if (fromRot, toRot) = (2, 3) then [(1, 0), (1, 1), (0, -2), (1, -2)]
      else if (fromRot, toRot) = (3, 2) then [(-1, 0), (-1, -1), (0, 2), (-1, 2)]
      else if (fromRot, toRot) = (3, 0) then [(-1, 0), (-1, -1), (0, 2), (-1, 2)]
      else if (fromRot, toRot) = (0, 3) then [(1, 0), (1, 1), (0, -2), (1, -2)]
      else [])"

definition getWallKicks :: "piece \<Rightarrow> int \<Rightarrow> (int \<times> int) list" where
  "getWallKicks p direction =
     (let fromRot = rotation p;
          toRot = js_rem (rotation p + direction + 4) 4
      in if ptype p = KI then kicks_I fromRot toRot else kicks_default fromRot toRot)"

text \<open>The loop over the kicks: the first offset that fits wins.\<close>

fun try_kicks :: "board \<Rightarrow> piece \<Rightarrow> (int \<times> int) list \<Rightarrow> piece option" where
  "try_kicks b rotated [] = None"
| "try_kicks b rotated (kick # rest) =
     (let kickX = gridX rotated + fst kick; kickY = gridY rotated + snd kick in
      if canPieceFitAt b rotated kickX kickY
      then Some (rotated\<lparr>gridX := kickX, gridY := kickY\<rparr>)
      else try_kicks b rotated rest)"

text \<open>\<open>tryRotation\<close>: \<open>Some\<close> is \<open>{success: true, piece}\<close>, \<open>None\<close> is \<open>{success: false}\<close>.\<close>

definition tryRotation :: "board \<Rightarrow> piece \<Rightarrow> int \<Rightarrow> piece option" where
  "tryRotation b p direction =
     (let rotated = rotatePiece p direction in
      if canPieceFitAt b rotated (gridX rotated) (gridY rotated) then Some rotated
      else if ptype p = KO then None
      else try_kicks b rotated (getWallKicks p direction))"

definition placePiece :: "board \<Rightarrow> piece \<Rightarrow> board" where
  "placePiece b p =
     fold (\<lambda>(dy, row) nb.
       fold (\<lambda>(dx, c) nb.
         if c \<noteq> 0 then
           let x = gridX p + int dx; y = gridY p + int dy in
           if y \<ge> 0 \<and> y < 20 \<and> x \<ge> 0 \<and> x < 10
           then nb[nat y := (nb ! nat y)[nat x := Some (color p)]]
           else nb
         else nb)
         (enumerate 0 row) nb)
       (enumerate 0 (shape p)) b"

definition findClearedLines :: "board \<Rightarrow> nat list" where
  "findClearedLines b =
     map fst (filter (\<lambda>(index, row). list_all (\<lambda>c. c \<noteq> None) row) (enumerate 0 b))"

text \<open>
  \<open>removeClearedLines\<close>: the rows that stay, then empty rows put in front one at a time
  while fewer than 20 rows are there.
\<close>

definition removeClearedLines :: "board \<Rightarrow> nat list \<Rightarrow> board" where
  "removeClearedLines b lns =
     (let newBoard = map snd (filter (\<lambda>(index, row). index \<notin> set lns) (enumerate 0 b))
      in replicate (20 - length newBoard) (replicate 10 None) @ newBoard)"

definition canSpawn :: "board \<Rightarrow> piece \<Rightarrow> bool" where
  "canSpawn b p = canPieceFitAt b p (gridX p) (gridY p)"

section \<open>scoring-engine.js: the ledger\<close>

datatype score_event_type =
    EV_SOFT_DROP | EV_HARD_DROP | EV_LINE_CLEAR | EV_SPIN_BONUS
  | EV_COMBO | EV_BACK_TO_BACK | EV_PERFECT_CLEAR | EV_LEVEL_BONUS

definition event_type_name :: "score_event_type \<Rightarrow> string" where
  "event_type_name t = (case t of
      EV_SOFT_DROP \<Rightarrow> ''SOFT_DROP'' | EV_HARD_DROP \<Rightarrow> ''HARD_DROP''
    | EV_LINE_CLEAR \<Rightarrow> ''LINE_CLEAR'' | EV_SPIN_BONUS \<Rightarrow> ''SPIN_BONUS''
    | EV_COMBO \<Rightarrow> ''COMBO'' | EV_BACK_TO_BACK \<Rightarrow> ''BACK_TO_BACK''
    | EV_PERFECT_CLEAR \<Rightarrow> ''PERFECT_CLEAR'' | EV_LEVEL_BONUS \<Rightarrow> ''LEVEL_BONUS'')"

text \<open>The metadata objects the engine attaches to an event, one constructor per shape.\<close>

datatype metadata =
    MRows int
  | MMultiplier int
  | MCombo int
  | MEmpty
  | MLineClear int bool int

record score_event =
  frame :: int
  etype :: score_event_type
  points :: int
  metadata :: metadata
  timestamp :: int
  hash :: string

text \<open>
  Decimal and hexadecimal digits of a number, as template strings and \<open>toString(16)\<close>
  print them. A template string prints a number of magnitude \<open>10 ^ 21\<close> or more in
  exponent form; \<open>show_int\<close> is the printed form below that.
\<close>

function show_digits :: "int \<Rightarrow> string" where
  "show_digits n =
     (if n < 10 then [''0123456789'' ! nat n]
      else show_digits (n div 10) @ [''0123456789'' ! nat (n mod 10)])"
  by pat_completeness auto
termination
  by (relation "measure nat") auto

declare show_digits.simps [simp del]

definition show_int :: "int \<Rightarrow> string" where
  "show_int i = (if i < 0 then CHR ''-'' # show_digits (- i) else show_digits i)"

function hex_digits :: "int \<Rightarrow> string" where
  "hex_digits n =
     (if n < 16 then [''0123456789abcdef'' ! nat n]
      else hex_digits (n div 16) @ [''0123456789abcdef'' ! nat (n mod 16)])"
  by pat_completeness auto
termination
  by (relation "measure nat") auto

declare hex_digits.simps [simp del]

definition show_bool :: "bool \<Rightarrow> string" where
  "show_bool b = (if b then ''true'' else ''false'')"

text \<open>\<open>JSON.stringify\<close> of the metadata object.\<close>

definition stringify_metadata :: "metadata \<Rightarrow> string" where
  "stringify_metadata m = (case m of
      MRows n \<Rightarrow> ''{\"rows\":'' @ show_int n @ ''}''
    | MMultiplier n \<Rightarrow> ''{\"multiplier\":'' @ show_int n @ ''}''
    | MCombo n \<Rightarrow> ''{\"combo\":'' @ show_int n @ ''}''
    | MEmpty \<Rightarrow> ''{}''
    | MLineClear n spin lvl \<Rightarrow>
        ''{\"lines\":'' @ show_int n @ '',\"spinBonus\":'' @ show_bool spin
          @ '',\"level\":'' @ show_int lvl @ ''}'')"

text \<open>
  \<open>simpleHash\<close>: \<open>hash = ((hash << 5) - hash) + char; hash = hash & hash\<close> keeps a 32-bit
  two's complement value, so the loop is word arithmetic; the result is the hexadecimal
  string of the absolute value of the signed reading.
\<close>

definition simpleHash_loop :: "string \<Rightarrow> 32 word" where
  "simpleHash_loop str = fold (\<lambda>c h. (push_bit 5 h - h) + of_nat (of_char c)) str 0"

definition simpleHash :: "string \<Rightarrow> string" where
  "simpleHash str = hex_digits \<bar>sint (simpleHash_loop str)\<bar>"

definition hashEvent :: "score_event \<Rightarrow> string \<Rightarrow> string" where
  "hashEvent event prevHash =
     simpleHash (prevHash @ ''|'' @ show_int (frame event) @ ''|'' @ event_type_name (etype event)
       @ ''|'' @ show_int (points event) @ ''|'' @ stringify_metadata (metadata event))"

text \<open>
  The scoring object: the ledger, the frame counter, the start time of the replay
  (\<open>null\<close> until \<open>initializeGame\<close> runs) and the integer statistics. The replay inputs and
  snapshots, the rate statistics (pieces per second and the like) and the stored high
  score are written by the engine but never read by the functions modelled here; they
  are left out.
\<close>

record scoring_engine =
  scoreLedger :: "score_event list"
  frameCount :: int
  replayStartTime :: "int option"
  piecesPlaced :: int
  linesClearedStat :: int
  spinBonuses :: int
  perfectClears :: int
  maxCombo :: int

definition new_ScoringEngine :: scoring_engine where
  "new_ScoringEngine =
     \<lparr>scoreLedger = [], frameCount = 0, replayStartTime = None, piecesPlaced = 0,
      linesClearedStat = 0, spinBonuses = 0, perfectClears = 0, maxCombo = 0\<rparr>"

text \<open>\<open>now\<close> is the value of \<open>Date.now()\<close>; \<open>Date.now() - null\<close> is \<open>Date.now()\<close>.\<close>

definition addScoreEvent ::
  "scoring_engine \<Rightarrow> score_event_type \<Rightarrow> int \<Rightarrow> metadata \<Rightarrow> int \<Rightarrow> scoring_engine" where
  "addScoreEvent eng t pts md now =
     (let event = \<lparr>frame = frameCount eng, etype = t, points = pts, metadata = md,
                   timestamp = now - (case replayStartTime eng of None \<Rightarrow> 0 | Some t0 \<Rightarrow> t0),
                   hash = []\<rparr>;
          prevHash = (if length (scoreLedger eng) > 0 then hash (last (scoreLedger eng)) else ''0'')
      in eng\<lparr>scoreLedger := scoreLedger eng @ [event\<lparr>hash := hashEvent event prevHash\<rparr>]\<rparr>)"

definition updateFrame :: "scoring_engine \<Rightarrow> scoring_engine" where
  "updateFrame eng = eng\<lparr>frameCount := frameCount eng + 1\<rparr>"

definition scoreSoftDrop :: "scoring_engine \<Rightarrow> int \<Rightarrow> int \<Rightarrow> int \<times> scoring_engine" where
  "scoreSoftDrop eng rows now =
     (let pts = rows * 1 in (pts, addScoreEvent eng EV_SOFT_DROP pts (MRows rows) now))"

definition scoreHardDrop :: "scoring_engine \<Rightarrow> int \<Rightarrow> int \<Rightarrow> int \<times> scoring_engine" where
  "scoreHardDrop eng rows now =
     (let pts = rows * 2 in (pts, addScoreEvent eng EV_HARD_DROP pts (MRows rows) now))"

text \<open>The loop of \<open>validateScoreLedger\<close>, from a previous hash on.\<close>

fun validate_loop :: "string \<Rightarrow> score_event list \<Rightarrow> bool" where
  "validate_loop prevHash [] = True"
| "validate_loop prevHash (event # rest) =
     (if hash event \<noteq> hashEvent event prevHash then False
      else validate_loop (hash event) rest)"

definition validateScoreLedger :: "scoring_engine \<Rightarrow> bool" where
  "validateScoreLedger eng = validate_loop ''0'' (scoreLedger eng)"

definition isPerfectClear :: "board \<Rightarrow> bool" where
  "isPerfectClear b = list_all (\<lambda>row. list_all (\<lambda>c. c = None) row) b"

text \<open>\<open>updateStats\<close> and \<open>finalizeGame\<close>, as far as the fields kept here go.\<close>

definition updateStats :: "scoring_engine \<Rightarrow> int \<Rightarrow> scoring_engine" where
  "updateStats eng pcs = eng\<lparr>piecesPlaced := pcs\<rparr>"

definition finalizeGame :: "scoring_engine \<Rightarrow> int \<Rightarrow> scoring_engine" where
  "finalizeGame eng pcs = updateStats eng pcs"

section \<open>game-state.js: the state\<close>

datatype phase = MENU | FALLING | LOCKING | CLEARING | PAUSED | GAME_OVER

text \<open>
  The last-move descriptor. A move that succeeded carries \<open>hitBottom\<close>; a move that was
  blocked carries \<open>hitWall\<close>, \<open>hitFloor\<close> and \<open>hitCeiling\<close>.
\<close>

datatype last_move =
    LM_GravityHit
  | LM_Move int int bool
  | LM_Blocked int int bool bool bool
  | LM_Rotate int
  | LM_HardDrop

definition last_move_type :: "last_move \<Rightarrow> string" where
  "last_move_type m = (case m of
      LM_GravityHit \<Rightarrow> ''GRAVITY_HIT'' | LM_Move dx dy hb \<Rightarrow> ''MOVE''
    | LM_Blocked dx dy w f c \<Rightarrow> ''MOVE'' | LM_Rotate d \<Rightarrow> ''ROTATE'' | LM_HardDrop \<Rightarrow> ''HARD_DROP'')"

record game_mode =
  gravity :: "int \<Rightarrow> rat"
  lockDelay :: rat
  maxLockTime :: rat
  mode_pieces :: "kind list"
  progressive :: bool

definition neonDrop :: game_mode where
  "neonDrop =
     \<lparr>gravity = (\<lambda>level. max 50 (1000 - (of_int level - 1) * 50)),
      lockDelay = 500, maxLockTime = 5000,
      mode_pieces = [KI, KJ, KL, KO, KS, KT, KZ, FLOAT, PLUS, KU, DOT],
      progressive = True\<rparr>"

text \<open>
  The game state; the field \<open>next\<close> of the source is \<open>nextPiece\<close> here.
  \<open>backToBackCounter\<close> is read by \<open>scoreLineClears\<close> and set nowhere, so it is
  \<open>undefined\<close> (\<open>None\<close>) in every state the engine builds. The generator and the scoring
  object are shared mutable objects in the source; here each state carries their current
  value. The fields \<open>particles\<close>, \<open>shadowCache\<close> and \<open>highScore\<close> serve the renderer
  only and are left out.
\<close>

record game_state =
  board :: board
  current :: "piece option"
  nextPiece :: "piece option"
  hold :: "piece option"
  canHold :: bool
  deathPiece :: "piece option"
  phase :: phase
  mode :: game_mode
  score :: int
  lines :: int
  level :: int
  combo :: int
  backToBackCounter :: "int option"
  lockTimer :: rat
  totalLockTime :: rat
  clearTimer :: rat
  gravityAccumulator :: rat
  pieces :: int
  startTime :: "int option"
  generation :: int
  lastMove :: "last_move option"
  clearingLines :: "nat list"
  rng :: "rng option"
  scoringEngine :: "scoring_engine option"

definition createEmptyBoard :: board where
  "createEmptyBoard = replicate 20 (replicate 10 None)"

definition createInitialState :: game_state where
  "createInitialState =
     \<lparr>board = createEmptyBoard, current = None, nextPiece = None, hold = None, canHold = True,
      deathPiece = None, phase = MENU, mode = neonDrop, score = 0, lines = 0, level = 1,
      combo = 0, backToBackCounter = None, lockTimer = 0, totalLockTime = 0, clearTimer = 0,
      gravityAccumulator = 0, pieces = 0, startTime = None, generation = 0, lastMove = None,
      clearingLines = [], rng = None, scoringEngine = None\<rparr>"

definition PIECE_PROGRESSION :: "(int \<times> kind list) list" where
  "PIECE_PROGRESSION =
     [(0, [KI, KO, KT, KL, FLOAT]), (20, [KJ]), (60, [KS, KZ]), (150, [PLUS]), (300, [KU, DOT])]"

text \<open>
  \<open>calculateSkillScore\<close> reads the clock: \<open>now\<close> is \<open>Date.now()\<close>. The quotients are taken
  in exact arithmetic.
\<close>

definition calculateSkillScore :: "game_state \<Rightarrow> int \<Rightarrow> int" where
  "calculateSkillScore state now =
     (case startTime state of
        None \<Rightarrow> 0
      | Some t0 \<Rightarrow>
          if t0 = 0 \<or> pieces state = 0 then 0
          else
            let elapsedSeconds = (of_int (now - t0) / 1000 :: rat);
                pps = of_int (pieces state) / max 1 elapsedSeconds;
                efficiency = (of_int (lines state) / of_int (pieces state) :: rat)
            in \<lfloor>of_int (lines state) * 2 + pps * 50 + efficiency * 100
                 + of_int (combo state) * 20\<rfloor>)"

definition getAvailablePieces :: "game_state \<Rightarrow> int \<Rightarrow> kind list" where
  "getAvailablePieces state now =
     (if \<not> progressive (mode state) then mode_pieces (mode state)
      else
        let skillScore = calculateSkillScore state now
        in concat (map snd (filter (\<lambda>(skill, ps). skillScore \<ge> skill) PIECE_PROGRESSION)))"

definition PIECE_WEIGHTS :: "kind \<Rightarrow> rat" where
  "PIECE_WEIGHTS k = (if k = PLUS \<or> k = KU \<or> k = DOT then 1 / 2 else 1)"

text \<open>
  The double written \<open>0.07\<close> is \<open>1261007895663739 / 2 ^ 54\<close>. The comparison
  \<open>NaN < 0.07\<close> is false.
\<close>

definition selectWeightedPiece :: "kind list \<Rightarrow> rng \<Rightarrow> kind option \<times> rng" where
  "selectWeightedPiece availablePieces r =
     (let (isFloat, r1) =
            (if FLOAT \<in> set availablePieces
             then (let (v, r') = rng_next r
                   in (case v of
                         None \<Rightarrow> False
                       | Some x \<Rightarrow> x < 1261007895663739 / 18014398509481984, r'))
             else (False, r))
      in if isFloat then (Some FLOAT, r1)
         else
           let weightedPieces =
                 concat (map (\<lambda>k. replicate (nat \<lfloor>PIECE_WEIGHTS k * 100\<rfloor>) k)
                           (filter (\<lambda>k. k \<noteq> FLOAT) availablePieces))
           in choice weightedPieces r1)"

text \<open>\<open>getNextPiece\<close> returns the piece and the generator as the call leaves it.\<close>

definition getNextPiece :: "game_state \<Rightarrow> int \<Rightarrow> error + (piece \<times> rng)" where
  "getNextPiece state now =
     (case rng state of
        None \<Rightarrow> Inl RNGNotInitialized
      | Some r \<Rightarrow>
          let availablePieces = getAvailablePieces state now in
          if length availablePieces = 0 then Inl NoPiecesAvailable
          else
            let (pieceType, r') = selectWeightedPiece availablePieces r in
            (case createPiece_opt pieceType of
               Inl e \<Rightarrow> Inl e
             | Inr p \<Rightarrow> Inr (p, r')))"

section \<open>scoring-engine.js: line clears\<close>

definition SPIN_CORNERS :: "(int \<times> int) list" where
  "SPIN_CORNERS = [(-1, -1), (1, -1), (-1, 1), (1, 1)]"

text \<open>A cell is truthy when it holds a non-empty string.\<close>

definition truthy_cell :: "cell \<Rightarrow> bool" where
  "truthy_cell c = (case c of None \<Rightarrow> False | Some s \<Rightarrow> s \<noteq> [])"

definition detectSpinBonus :: "game_state \<Rightarrow> last_move option \<Rightarrow> bool" where
  "detectSpinBonus state lm =
     (case current state of
        None \<Rightarrow> False
      | Some cur \<Rightarrow>
          if ptype cur \<noteq> KT then False
          else
            (case lm of
               None \<Rightarrow> False
             | Some m \<Rightarrow>
                 if last_move_type m \<noteq> ''ROTATE'' then False
                 else
                   let centerX = gridX cur + 1;
                       centerY = gridY cur + 1;
                       filledCorners =
                         fold (\<lambda>(dx, dy) n.
                           let x = centerX + dx; y = centerY + dy in
                           if x < 0 \<or> x \<ge> 10 \<or> y \<ge> 20 then n + 1
                           else if y \<ge> 0 \<and> truthy_cell (board state ! nat y ! nat x) then n + 1
                           else n) SPIN_CORNERS (0::nat)
                   in filledCorners \<ge> 3))"

text \<open>Reading a table at an index it does not have gives \<open>undefined\<close>.\<close>

definition js_index :: "'a list \<Rightarrow> int \<Rightarrow> 'a option" where
  "js_index xs i = (if 0 \<le> i \<and> i < int (length xs) then Some (xs ! nat i) else None)"

text \<open>
  \<open>scoreLineClears\<close> returns the points and the scoring object it leaves. Its only caller
  passes the length of \<open>clearingLines\<close> for \<open>linesCleared\<close>, a natural number. With a spin
  and no line the base score is \<open>undefined\<close>; the code throws nothing and returns the
  score \<open>NaN\<close>, which \<open>finishClearing\<close> stores in the state. Scores are modelled as
  integers, so the model has no such state: it ends the call with \<open>ScoreNaN\<close>. The
  section on the engine shows that no reachable state gets there.
\<close>

definition scoreLineClears ::
  "scoring_engine \<Rightarrow> game_state \<Rightarrow> nat \<Rightarrow> last_move option \<Rightarrow> int \<Rightarrow> error + (int \<times> scoring_engine)" where
  "scoreLineClears eng state linesCleared lm now =
     (let lvl = level state;
          hasSpinBonus = detectSpinBonus state lm;
          base = (if hasSpinBonus then js_index [400, 800, 1200, 1600] (min (int linesCleared - 1) 3)
                  else js_index [0, 100, 300, 500, 800] (min (int linesCleared) 4))
      in case base of
           None \<Rightarrow> Inl ScoreNaN
         | Some baseScore \<Rightarrow>
             let eng1 = (if hasSpinBonus then eng\<lparr>spinBonuses := spinBonuses eng + 1\<rparr> else eng);
                 score1 = baseScore * lvl;
                 isDifficult = (linesCleared = 4 \<or> hasSpinBonus);
                 (score2, eng2) =
                   (case backToBackCounter state of
                      Some b2b \<Rightarrow>
                        if isDifficult \<and> b2b > 0 then
                          let b2bBonus = (baseScore div 2) * lvl
                          in (score1 + b2bBonus, addScoreEvent eng1 EV_BACK_TO_BACK b2bBonus (MMultiplier b2b) now)
                        else (score1, eng1)
                    | None \<Rightarrow> (score1, eng1));
                 (score3, eng3) =
                   (if combo state > 1 then
                      let comboBonus = 50 * combo state * lvl
                      in (score2 + comboBonus,
                          (addScoreEvent eng2 EV_COMBO comboBonus (MCombo (combo state)) now)
                            \<lparr>maxCombo := max (maxCombo eng2) (combo state)\<rparr>)
                    else (score2, eng2));
                 (score4, eng4) =
                   (if isPerfectClear (board state) then
                      let perfectBonus = ([0, 800, 1200, 1800, 2000] ! min linesCleared 4) * lvl
                      in (score3 + perfectBonus,
                          (addScoreEvent eng3 EV_PERFECT_CLEAR perfectBonus MEmpty now)
                            \<lparr>perfectClears := perfectClears eng3 + 1\<rparr>)
                    else (score3, eng3));
                 eng5 = addScoreEvent eng4 EV_LINE_CLEAR (baseScore * lvl)
                          (MLineClear (int linesCleared) hasSpinBonus lvl) now
             in Inr (score4, eng5\<lparr>linesClearedStat := linesClearedStat eng5 + int linesCleared\<rparr>))"

section \<open>game-engine.js\<close>

text \<open>
  Every function that reads the clock takes \<open>now\<close>, the value of \<open>Date.now()\<close> during the
  call. A function that can throw returns \<open>error + game_state\<close>. Reading a field of
  \<open>state.current\<close> or \<open>state.next\<close> when it is \<open>null\<close> throws a \<open>TypeError\<close>. Timers
  are added in exact arithmetic. The lock delay of a FLOAT piece is \<open>lockDelay * 1.2\<close>;
  for the delay of 500 the double product is exactly 600, which \<open>6 / 5\<close> gives too.
\<close>

definition gameOver :: "game_state \<Rightarrow> game_state" where
  "gameOver state =
     (let eng = (case scoringEngine state of
                   None \<Rightarrow> None
                 | Some e \<Rightarrow> Some (finalizeGame e (pieces state)))
      in state\<lparr>scoringEngine := eng, phase := GAME_OVER, current := None, nextPiece := None\<rparr>)"

definition spawnNextPiece :: "game_state \<Rightarrow> int \<Rightarrow> error + game_state" where
  "spawnNextPiece state now =
     (if phase state = GAME_OVER then Inr state
      else case nextPiece state of
        None \<Rightarrow> Inl TypeError
      | Some nxt \<Rightarrow>
          let newPiece = nxt\<lparr>pgeneration := Some (generation state + 1), upMovesUsed := 0\<rparr> in
          if \<not> canSpawn (board state) newPiece then Inr (gameOver state)
          else
            (case getNextPiece state now of
               Inl e \<Rightarrow> Inl e
             | Inr (np, r') \<Rightarrow>
                 Inr (state\<lparr>current := Some newPiece, nextPiece := Some np,
                            pieces := pieces state + 1, phase := FALLING,
                            generation := generation state + 1, rng := Some r'\<rparr>)))"

definition lockPiece :: "game_state \<Rightarrow> int \<Rightarrow> error + game_state" where
  "lockPiece state now =
     (case current state of
        None \<Rightarrow> Inl TypeError
      | Some cur \<Rightarrow>
          if gridY cur < 0 then
            let newBoard = placePiece (board state) cur
            in Inr (gameOver (state\<lparr>board := newBoard, deathPiece := Some cur\<rparr>))
          else
            let newBoard = placePiece (board state) cur;
                clearedLines = findClearedLines newBoard;
                eng = (case scoringEngine state of
                         None \<Rightarrow> None
                       | Some e \<Rightarrow> Some (updateStats e (pieces state + 1)))
            in if length clearedLines > 0 then
                 Inr (state\<lparr>scoringEngine := eng, board := newBoard, current := None,
                            phase := CLEARING, clearTimer := 0, clearingLines := clearedLines,
                            canHold := True\<rparr>)
               else
                 spawnNextPiece
                   (state\<lparr>scoringEngine := eng, board := newBoard, current := None,
                          canHold := True, pieces := pieces state + 1\<rparr>) now)"

definition finishClearing :: "game_state \<Rightarrow> int \<Rightarrow> error + game_state" where
  "finishClearing state now =
     (let newBoard = removeClearedLines (board state) (clearingLines state);
          linesCleared = length (clearingLines state);
          newState = state\<lparr>board := newBoard, clearingLines := [],
                           lines := lines state + int linesCleared,
                           level := (lines state + int linesCleared) div 10 + 1\<rparr>
      in case scoringEngine state of
           None \<Rightarrow> spawnNextPiece newState now
         | Some eng \<Rightarrow>
             (case scoreLineClears eng state linesCleared (lastMove state) now of
                Inl e \<Rightarrow> Inl e
              | Inr (pts, eng') \<Rightarrow>
                  spawnNextPiece
                    (newState\<lparr>scoringEngine := Some eng', score := score newState + pts,
                              combo := (if linesCleared > 0 then combo state + 1 else 0)\<rparr>) now))"

definition processFalling :: "game_state \<Rightarrow> rat \<Rightarrow> game_state" where
  "processFalling state deltaTime =
     (case current state of
        None \<Rightarrow> state\<lparr>phase := GAME_OVER\<rparr>
      | Some cur \<Rightarrow>
          let newAccumulator = gravityAccumulator state + deltaTime;
              gravityDelay = gravity (mode state) (level state)
          in if newAccumulator \<ge> gravityDelay then
               if canPieceFitAt (board state) cur (gridX cur) (gridY cur + 1) then
                 let newPiece = cur\<lparr>gridY := gridY cur + 1\<rparr>;
                     shadowY = calculateShadow (board state) newPiece;
                     justHitShadow = (gridY newPiece = shadowY \<and> gridY cur \<noteq> shadowY)
                 in state\<lparr>current := Some newPiece, gravityAccumulator := 0,
                          lastMove := (if justHitShadow then Some LM_GravityHit else lastMove state)\<rparr>
               else state\<lparr>phase := LOCKING, lockTimer := 0, totalLockTime := 0,
                          gravityAccumulator := 0\<rparr>
             else state\<lparr>gravityAccumulator := newAccumulator\<rparr>)"

definition processLocking :: "game_state \<Rightarrow> rat \<Rightarrow> int \<Rightarrow> error + game_state" where
  "processLocking state deltaTime now =
     (case current state of
        None \<Rightarrow> Inl TypeError
      | Some cur \<Rightarrow>
          let newLockTimer = lockTimer state + deltaTime;
              newTotalLockTime = totalLockTime state + deltaTime
          in if canPieceFitAt (board state) cur (gridX cur) (gridY cur + 1) then
               Inr (state\<lparr>phase := FALLING, lockTimer := 0, totalLockTime := 0\<rparr>)
             else if newTotalLockTime \<ge> maxLockTime (mode state) then lockPiece state now
             else
               let delay = (if ptype cur = FLOAT then lockDelay (mode state) * (6 / 5)
                            else lockDelay (mode state))
               in if newLockTimer \<ge> delay then lockPiece state now
                  else Inr (state\<lparr>lockTimer := newLockTimer, totalLockTime := newTotalLockTime\<rparr>))"

definition processClearing :: "game_state \<Rightarrow> rat \<Rightarrow> int \<Rightarrow> error + game_state" where
  "processClearing state deltaTime now =
     (let newClearTimer = clearTimer state + deltaTime
      in if newClearTimer \<ge> 300 then finishClearing state now
         else Inr (state\<lparr>clearTimer := newClearTimer\<rparr>))"

definition tick :: "game_state \<Rightarrow> rat \<Rightarrow> int \<Rightarrow> error + game_state" where
  "tick state deltaTime now =
     (if phase state = MENU \<or> phase state = PAUSED \<or> phase state = GAME_OVER then Inr state
      else case phase state of
        FALLING \<Rightarrow> Inr (processFalling state deltaTime)
      | LOCKING \<Rightarrow> processLocking state deltaTime now
      | CLEARING \<Rightarrow> processClearing state deltaTime now
      | _ \<Rightarrow> Inr state)"

text \<open>
  \<open>executeMove\<close>. The branch taken when the moved piece can fall and the phase is LOCKING
  reads \<open>piece.type\<close>, but no variable \<open>piece\<close> is in scope in this function (it is a
  local of \<open>move\<close>): the read throws a \<open>ReferenceError\<close>.
\<close>

definition executeMove :: "game_state \<Rightarrow> int \<Rightarrow> int \<Rightarrow> int \<Rightarrow> int \<Rightarrow> int \<Rightarrow> error + game_state" where
  "executeMove state newX newY dx dy now =
     (case current state of
        None \<Rightarrow> Inl TypeError
      | Some cur \<Rightarrow>
          let moved = cur\<lparr>gridX := newX, gridY := newY\<rparr>;
              movedPiece = (if ptype cur = FLOAT \<and> dy < 0
                            then moved\<lparr>upMovesUsed := upMovesUsed cur + 1\<rparr> else moved);
              newState0 =
                state\<lparr>current := Some movedPiece,
                      lastMove := Some (LM_Move dx dy
                        (dy > 0 \<and> \<not> canPieceFitAt (board state) movedPiece
                                     (gridX movedPiece) (gridY movedPiece + 1)))\<rparr>;
              newState1 = (if dy \<noteq> 0 then newState0\<lparr>gravityAccumulator := 0\<rparr> else newState0);
              canFall = canPieceFitAt (board state) movedPiece (gridX movedPiece) (gridY movedPiece + 1);
              phased =
                (if \<not> canFall \<and> phase state = FALLING
                 then Inr (newState1\<lparr>phase := LOCKING, lockTimer := 0\<rparr>)
                 else if canFall \<and> phase state = LOCKING then Inl ReferenceError
                 else if phase state = LOCKING then Inr (newState1\<lparr>lockTimer := 0\<rparr>)
                 else Inr newState1)
          in (case phased of
                Inl e \<Rightarrow> Inl e
              | Inr newState2 \<Rightarrow>
                  (case scoringEngine state of
                     None \<Rightarrow> Inr newState2
                   | Some eng \<Rightarrow>
                       if dy > 0 then
                         let (pts, eng') = scoreSoftDrop eng dy now
                         in Inr (newState2\<lparr>score := score newState2 + pts,
                                           scoringEngine := Some eng'\<rparr>)
                       else Inr newState2)))"

definition move :: "game_state \<Rightarrow> int \<Rightarrow> int \<Rightarrow> int \<Rightarrow> error + game_state" where
  "move state dx dy now =
     (case current state of
        None \<Rightarrow> Inl TypeError
      | Some piece \<Rightarrow>
          let targetX = gridX piece + dx;
              targetY = gridY piece + dy
          in if canPieceFitAt (board state) piece targetX targetY
             then executeMove state targetX targetY dx dy now
             else if ptype piece = FLOAT \<and> dx \<noteq> 0 \<and> dy = 0
                     \<and> targetY + 1 < 20 \<and> canPieceFitAt (board state) piece targetX (targetY + 1)
             then executeMove state targetX (targetY + 1) dx 1 now
             else Inr (state\<lparr>lastMove := Some (LM_Blocked dx dy (dx \<noteq> 0) (dy > 0) (dy < 0))\<rparr>))"

definition rotate :: "game_state \<Rightarrow> int \<Rightarrow> error + game_state" where
  "rotate state direction =
     (case current state of
        None \<Rightarrow> Inl TypeError
      | Some cur \<Rightarrow>
          (case tryRotation (board state) cur direction of
             None \<Rightarrow> Inr state
           | Some rp \<Rightarrow>
               let newState = state\<lparr>current := Some rp, lastMove := Some (LM_Rotate direction)\<rparr>;
                   canFall = canPieceFitAt (board state) rp (gridX rp) (gridY rp + 1)
               in if \<not> canFall \<and> phase state = FALLING
                  then Inr (newState\<lparr>phase := LOCKING, lockTimer := 0\<rparr>)
                  else if canFall \<and> phase state = LOCKING
                  then Inr (newState\<lparr>phase := FALLING, lockTimer := 0\<rparr>)
                  else if phase state = LOCKING then Inr (newState\<lparr>lockTimer := 0\<rparr>)
                  else Inr newState))"

definition hardDrop :: "game_state \<Rightarrow> int \<Rightarrow> error + game_state" where
  "hardDrop state now =
     (case current state of
        None \<Rightarrow> Inl TypeError
      | Some cur \<Rightarrow>
          let shadowY = calculateShadow (board state) cur;
              dropDistance = shadowY - gridY cur;
              droppedPiece = cur\<lparr>gridY := shadowY\<rparr>;
              newState = state\<lparr>current := Some droppedPiece, lastMove := Some LM_HardDrop\<rparr>;
              scored =
                (case scoringEngine state of
                   None \<Rightarrow> newState
                 | Some eng \<Rightarrow>
                     if dropDistance > 0 then
                       let (pts, eng') = scoreHardDrop eng dropDistance now
                       in newState\<lparr>score := score newState + pts, scoringEngine := Some eng'\<rparr>
                     else newState)
          in lockPiece scored now)"

definition tryHold :: "game_state \<Rightarrow> int \<Rightarrow> error + game_state" where
  "tryHold state now =
     (case current state of
        None \<Rightarrow> Inr state
      | Some held \<Rightarrow>
          if \<not> canHold state then Inr state
          else
            (case (case hold state of Some h \<Rightarrow> Some h | None \<Rightarrow> nextPiece state) of
               None \<Rightarrow> Inl TypeError
             | Some newCurrent \<Rightarrow>
                 let heldPiece = createPiece (ptype held);
                     activePiece = (createPiece (ptype newCurrent))
                                     \<lparr>pgeneration := Some (generation state + 1), upMovesUsed := 0\<rparr>
                 in (case hold state of
                       Some h \<Rightarrow>
                         Inr (state\<lparr>current := Some activePiece, hold := Some heldPiece,
                                    canHold := False, phase := FALLING,
                                    generation := generation state + 1\<rparr>)
                     | None \<Rightarrow>
                         (case getNextPiece state now of
                            Inl e \<Rightarrow> Inl e
                          | Inr (np, r') \<Rightarrow>
                              Inr (state\<lparr>current := Some activePiece, hold := Some heldPiece,
                                         nextPiece := Some np, canHold := False, phase := FALLING,
                                         generation := generation state + 1, rng := Some r'\<rparr>)))))"

text \<open>
  The actions: those \<open>handleInput\<close> knows, the three keys \<open>main.js\<close> interprets itself, and
  any other type tag.
\<close>

datatype action =
    UP_PRESSED
  | MOVE int int
  | ROTATE int
  | HARD_DROP
  | HOLD
  | SPACE
  | ENTER
  | ESCAPE
  | OTHER string

definition handleInput :: "game_state \<Rightarrow> action \<Rightarrow> int \<Rightarrow> error + game_state" where
  "handleInput state act now =
     (if phase state \<noteq> FALLING \<and> phase state \<noteq> LOCKING then Inr state
      else case current state of
        None \<Rightarrow> Inr state
      | Some cur \<Rightarrow>
          (case act of
             UP_PRESSED \<Rightarrow>
               if ptype cur = FLOAT \<and> upMovesUsed cur < 7 then move state 0 (-1) now
               else rotate state 1
           | MOVE dx dy \<Rightarrow> move state dx dy now
           | ROTATE direction \<Rightarrow> rotate state direction
           | HARD_DROP \<Rightarrow> hardDrop state now
           | HOLD \<Rightarrow> tryHold state now
           | _ \<Rightarrow> Inr state))"

text \<open>
  \<open>startGame\<close>: a state without a generator gets one seeded with the clock. Both pieces
  are drawn for the state as it was passed in, with the generator attached.
\<close>

definition startGame :: "game_state \<Rightarrow> int \<Rightarrow> error + game_state" where
  "startGame state now =
     (if phase state = FALLING \<or> phase state = LOCKING \<or> phase state = CLEARING then Inr state
      else
        let r = (case rng state of Some r0 \<Rightarrow> r0 | None \<Rightarrow> createRNG now);
            emptyBoard = replicate 20 (replicate 10 None)
        in case getNextPiece (state\<lparr>rng := Some r\<rparr>) now of
             Inl e \<Rightarrow> Inl e
           | Inr (firstPiece, r1) \<Rightarrow>
               (case getNextPiece (state\<lparr>rng := Some r1\<rparr>) now of
                  Inl e \<Rightarrow> Inl e
                | Inr (np, r2) \<Rightarrow>
                    Inr (state\<lparr>board := emptyBoard, phase := FALLING,
                               current := Some (firstPiece\<lparr>pgeneration := Some 1, upMovesUsed := 0\<rparr>),
                               nextPiece := Some np, score := 0, lines := 0, level := 1,
                               pieces := 1, combo := 0, generation := 1,
                               scoringEngine := Some new_ScoringEngine, rng := Some r2,
                               gravityAccumulator := 0, startTime := Some now\<rparr>)))"

section \<open>main.js: routing of actions\<close>

definition handleAction :: "game_state \<Rightarrow> action \<Rightarrow> int \<Rightarrow> error + game_state" where
  "handleAction state act now =
     (case phase state of
        MENU \<Rightarrow> if act = SPACE \<or> act = ENTER then startGame state now else Inr state
      | FALLING \<Rightarrow>
          if act = ESCAPE then Inr (state\<lparr>phase := PAUSED\<rparr>)
          else if act = SPACE then handleInput state HARD_DROP now
          else handleInput state act now
      | LOCKING \<Rightarrow>
          if act = ESCAPE then Inr (state\<lparr>phase := PAUSED\<rparr>)
          else if act = SPACE then handleInput state HARD_DROP now
          else handleInput state act now
      | PAUSED \<Rightarrow>
          if act = ESCAPE \<or> act = SPACE \<or> act = ENTER then Inr (state\<lparr>phase := FALLING\<rparr>)
          else Inr state
      | GAME_OVER \<Rightarrow>
          if act = SPACE \<or> act = ENTER \<or> act = ESCAPE then Inr createInitialState
          else Inr state
      | CLEARING \<Rightarrow> Inr state)"

text \<open>
  The states a session can be in: the initial state, and every state that \<open>startGame\<close>,
  \<open>tick\<close>, \<open>handleInput\<close> or the action routing of \<open>main.js\<close> returns from one of them. A
  call that throws leaves the state as it was, except for the generator and the scoring
  object, which it shares with the failed call; the last rule covers that.
\<close>

inductive reachable :: "game_state \<Rightarrow> bool" where
  r_init: "reachable createInitialState"
| r_start: "reachable s \<Longrightarrow> startGame s now = Inr s' \<Longrightarrow> reachable s'"
| r_tick: "reachable s \<Longrightarrow> tick s deltaTime now = Inr s' \<Longrightarrow> reachable s'"
| r_input: "reachable s \<Longrightarrow> handleInput s act now = Inr s' \<Longrightarrow> reachable s'"
| r_action: "reachable s \<Longrightarrow> handleAction s act now = Inr s' \<Longrightarrow> reachable s'"
| r_shared: "reachable s \<Longrightarrow> reachable (s\<lparr>rng := r, scoringEngine := e\<rparr>)"

section \<open>Ledgers built by the engine, and tampering\<close>

text \<open>
  A ledger grows by \<open>addScoreEvent\<close>, with \<open>updateFrame\<close> in between. \<open>set_points\<close>
  overwrites the \<open>points\<close> field of the event at one index, as a tampered ledger has it;
  \<open>prev_hash\<close> is the hash the validation holds when it reaches that index.
\<close>

datatype ledger_op = Add score_event_type int metadata int | Frame

fun run_ledger_ops :: "scoring_engine \<Rightarrow> ledger_op list \<Rightarrow> scoring_engine" where
  "run_ledger_ops eng [] = eng"
| "run_ledger_ops eng (Add t pts md now # ops) = run_ledger_ops (addScoreEvent eng t pts md now) ops"
| "run_ledger_ops eng (Frame # ops) = run_ledger_ops (updateFrame eng) ops"

definition prev_hash :: "score_event list \<Rightarrow> nat \<Rightarrow> string" where
  "prev_hash ledger i = (if i = 0 then ''0'' else hash (ledger ! (i - 1)))"

definition set_points :: "scoring_engine \<Rightarrow> nat \<Rightarrow> int \<Rightarrow> scoring_engine" where
  "set_points eng i p =
     eng\<lparr>scoreLedger := (scoreLedger eng)[i := (scoreLedger eng ! i)\<lparr>points := p\<rparr>]\<rparr>"

text \<open>The ledger after one hard drop of three rows.\<close>

definition hard_drop_ledger :: scoring_engine where
  "hard_drop_ledger = snd (scoreHardDrop new_ScoringEngine 3 1762128000000)"

section \<open>Conditions on states, and the sessions used as examples\<close>

text \<open>
  What the specification says of the generator: a value in the interval \<open>[0, 1)\<close>, which \<open>NaN\<close> is
  not, and the step in exact integer arithmetic.
\<close>

definition in_unit_interval :: "rat option \<Rightarrow> bool" where
  "in_unit_interval v = (case v of None \<Rightarrow> False | Some x \<Rightarrow> 0 \<le> x \<and> x < 1)"

definition exact_step :: "rng \<Rightarrow> rng" where
  "exact_step state =
     (case state of
        NaN \<Rightarrow> NaN
      | Finite s \<Rightarrow> Finite ((s * 1664525 + 1013904223) mod 2 ^ 32))"

text \<open>The link between the current piece and the phase that the engine maintains.\<close>

definition piece_phase_inv :: "game_state \<Rightarrow> bool" where
  "piece_phase_inv s =
     ((current s \<noteq> None) = (phase s = FALLING \<or> phase s = LOCKING \<or> phase s = PAUSED))"

text \<open>
  A move by \<open>(dx, dy)\<close> that \<open>move\<close> rejects: the piece does not fit at the target, and
  the drift of a FLOAT piece one row down does not apply or does not fit either.
\<close>

definition move_rejected :: "game_state \<Rightarrow> piece \<Rightarrow> int \<Rightarrow> int \<Rightarrow> bool" where
  "move_rejected s p dx dy =
     (\<not> canPieceFitAt (board s) p (gridX p + dx) (gridY p + dy)
      \<and> \<not> (ptype p = FLOAT \<and> dx \<noteq> 0 \<and> dy = 0 \<and> gridY p + dy + 1 < 20
            \<and> canPieceFitAt (board s) p (gridX p + dx) (gridY p + dy + 1)))"

text \<open>
  A session started from the menu at clock value 1762128000000, which also seeds the
  generator: the state \<open>startGame\<close> returns, the same state after ESCAPE, after a soft
  drop of one row, and with the piece moved to the left wall.
\<close>

definition menu_started :: game_state where
  "menu_started =
     createInitialState\<lparr>board := replicate 20 (replicate 10 None), phase := FALLING,
       current := Some ((createPiece KL)\<lparr>pgeneration := Some 1, upMovesUsed := 0\<rparr>),
       nextPiece := Some (createPiece KI), score := 0, lines := 0, level := 1,
       pieces := 1, combo := 0, generation := 1,
       scoringEngine := Some new_ScoringEngine, rng := Some (Finite 311013097),
       gravityAccumulator := 0, startTime := Some 1762128000000\<rparr>"

definition paused_example :: game_state where
  "paused_example = menu_started\<lparr>phase := PAUSED\<rparr>"

definition soft_dropped :: game_state where
  "soft_dropped =
     menu_started\<lparr>
       current := Some ((createPiece KL)\<lparr>pgeneration := Some 1, upMovesUsed := 0, gridY := -1\<rparr>),
       lastMove := Some (LM_Move 0 1 False), gravityAccumulator := 0, score := 1,
       scoringEngine := Some (snd (scoreSoftDrop new_ScoringEngine 1 1762128000300))\<rparr>"

definition wall_piece :: piece where
  "wall_piece = (createPiece KL)\<lparr>pgeneration := Some 1, upMovesUsed := 0, gridX := 0\<rparr>"

definition at_wall :: game_state where
  "at_wall = menu_started\<lparr>current := Some wall_piece, lastMove := Some (LM_Move (-1) 0 False)\<rparr>"

text \<open>
  A replayed session: the generator is seeded with 20251103 before \<open>startGame\<close> runs at
  clock value 1762128000000.
\<close>

definition seeded_state :: game_state where
  "seeded_state = createInitialState\<lparr>rng := Some (createRNG 20251103)\<rparr>"

definition seeded_started :: game_state where
  "seeded_started =
     seeded_state\<lparr>board := replicate 20 (replicate 10 None), phase := FALLING,
       current := Some ((createPiece KT)\<lparr>pgeneration := Some 1, upMovesUsed := 0\<rparr>),
       nextPiece := Some (createPiece KL), score := 0, lines := 0, level := 1,
       pieces := 1, combo := 0, generation := 1,
       scoringEngine := Some new_ScoringEngine, rng := Some (Finite 3893795715),
       gravityAccumulator := 0, startTime := Some 1762128000000\<rparr>"

text \<open>
  A T piece in a pocket, in a session that has cleared one line so far. The piece stands
  at column 3, row 16, pointing left, held up by the block at column 3 of row 18; row 19
  is full but for columns 3 to 5. Rotating it clockwise kicks it down into the gap, under
  the overhang. The scoring object holds the event of the earlier line.
\<close>

definition session_engine :: scoring_engine where
  "session_engine =
     (addScoreEvent new_ScoringEngine EV_LINE_CLEAR 100 (MLineClear 1 False 1) 1762128030000)
       \<lparr>linesClearedStat := 1, piecesPlaced := 17\<rparr>"

definition spin_board :: board where
  "spin_board =
     replicate 16 (replicate 10 None) @
     [[None, None, Some ''#FF0000'', None, None, None, None, None, None, None],
      [None, None, Some ''#FF0000'', None, None, Some ''#FF0000'', None, None, None, None],
      [None, None, None, Some ''#FF0000'', None, None, None, None, None, None],
      [Some ''#FF0000'', Some ''#FF0000'', Some ''#FF0000'', None, None, None,
       Some ''#FF0000'', Some ''#FF0000'', Some ''#FF0000'', Some ''#FF0000'']]"

definition spin_piece :: piece where
  "spin_piece =
     (rotatePiece (createPiece KT) (-1))\<lparr>gridX := 3, gridY := 16, pgeneration := Some 10\<rparr>"

definition spin_piece_rotated :: piece where
  "spin_piece_rotated = (createPiece KT)\<lparr>gridX := 3, gridY := 18, pgeneration := Some 10\<rparr>"

definition spin_before :: game_state where
  "spin_before =
     createInitialState\<lparr>board := spin_board, phase := LOCKING, current := Some spin_piece,
       nextPiece := Some (createPiece KO), score := 300, lines := 1, combo := 1,
       pieces := 18, generation := 10, lockTimer := 120, totalLockTime := 120,
       startTime := Some 1762128000000, lastMove := Some LM_GravityHit, rng := Some (Finite 12345),
       scoringEngine := Some session_engine\<rparr>"

definition spin_rotated :: game_state where
  "spin_rotated =
     spin_before\<lparr>current := Some spin_piece_rotated, lastMove := Some (LM_Rotate 1),
       lockTimer := 0\<rparr>"

definition spin_clearing :: game_state where
  "spin_clearing =
     spin_rotated\<lparr>scoringEngine := Some (updateStats session_engine 19),
       board := placePiece spin_board spin_piece_rotated, current := None, phase := CLEARING,
       clearTimer := 0, clearingLines := [19], canHold := True\<rparr>"

text \<open>The same board with a FLOAT piece in the gap, under the overhang.\<close>

definition float_piece :: piece where
  "float_piece = (createPiece FLOAT)\<lparr>gridX := 3, gridY := 19, pgeneration := Some 10\<rparr>"

definition float_under :: game_state where
  "float_under = spin_before\<lparr>current := Some float_piece\<rparr>"

text \<open>
  The last blocks of a board, three pieces into a session: row 19 holds six blocks, in
  columns 4 to 9, and an I piece lies on the floor in columns 0 to 3, its lock delay
  almost over.
\<close>

definition last_row_board :: board where
  "last_row_board =
     replicate 19 (replicate 10 None) @
     [[None, None, None, None, Some ''#00FF00'', Some ''#00FF00'', Some ''#00FF00'',
       Some ''#00FF00'', Some ''#00FF00'', Some ''#00FF00'']]"

definition last_row_piece :: piece where
  "last_row_piece = (createPiece KI)\<lparr>gridX := 0, gridY := 18, pgeneration := Some 4\<rparr>"

definition last_row_locking :: game_state where
  "last_row_locking =
     createInitialState\<lparr>board := last_row_board, phase := LOCKING, current := Some last_row_piece,
       nextPiece := Some (createPiece KO), score := 300, pieces := 7, generation := 4,
       lockTimer := 490, totalLockTime := 490, startTime := Some 1762128000000,
       lastMove := Some (LM_Move (-1) 0 False), rng := Some (Finite 12345),
       scoringEngine := Some (updateStats new_ScoringEngine 6)\<rparr>"

definition last_row_clearing :: game_state where
  "last_row_clearing =
     last_row_locking\<lparr>scoringEngine := Some (updateStats (updateStats new_ScoringEngine 6) 8),
       board := placePiece last_row_board last_row_piece, current := None, phase := CLEARING,
       clearTimer := 0, clearingLines := [19], canHold := True\<rparr>"

section \<open>Properties of the generator\<close>

lemma js_rem_nonneg: "0 \<le> a \<Longrightarrow> 0 < b \<Longrightarrow> js_rem a b = a mod b"
  by (cases "a = 0") (simp_all add: js_rem_def)

lemma bitlen_bounds: "0 < k \<Longrightarrow> 2 ^ (bitlen k - 1) \<le> k \<and> k < 2 ^ bitlen k"
proof (induction k rule: bitlen.induct)
  case (1 k)
  show ?case
  proof (cases "k div 2 = 0")
    case True
    then have k1: "k = 1" using 1(2) by presburger
    show ?thesis unfolding k1 by (simp add: bitlen.simps)
  next
    case False
    then have pos: "0 < k div 2" using 1(2) by presburger
    have ih: "2 ^ (bitlen (k div 2) - 1) \<le> k div 2 \<and> k div 2 < 2 ^ bitlen (k div 2)"
      using 1(1) 1(2) pos by simp
    have b: "bitlen k = Suc (bitlen (k div 2))" using 1(2) by (subst bitlen.simps) simp
    have bp: "0 < bitlen (k div 2)" using pos by (subst bitlen.simps) simp
    then obtain m where m: "bitlen (k div 2) = Suc m" by (cases "bitlen (k div 2)") auto
    show ?thesis using ih unfolding b m by simp presburger
  qed
qed

lemma round53_bound:
  assumes x0: "0 \<le> x" and xb: "x < 2 ^ 1024 - 2 ^ 970"
  shows "0 \<le> round53 x \<and> round53 x \<le> 2 ^ 1024 - 2 ^ 971"
proof (cases "\<bar>x\<bar> \<le> 2 ^ 53")
  case True
  then show ?thesis using x0 by (simp add: round53_def)
next
  case False
  then have big: "2 ^ 53 < x" using x0 by simp
  define n where "n = bitlen x"
  define e where "e = n - 53"
  define q where "q = x div 2 ^ e"
  define r where "r = x mod 2 ^ e"
  define m where "m = (if r > 2 ^ (e - 1) \<or> (r = 2 ^ (e - 1) \<and> odd q) then q + 1 else q)"
  have xpos: "0 < x" using big by simp
  have bb: "2 ^ (n - 1) \<le> x" "x < 2 ^ n" using bitlen_bounds[OF xpos] by (simp_all add: n_def)
  have "(2::int) ^ 53 < 2 ^ n" using big bb(2) by simp
  then have n53: "53 < n" by (simp only: power_strict_increasing_iff[of "2::int"]) 
  have "(2::int) ^ (n - 1) < 2 ^ 1024" using bb(1) xb by simp
  then have "n - 1 < 1024" by (simp only: power_strict_increasing_iff[of "2::int"])
  then have n1024: "n \<le> 1024" by simp
  have e1: "1 \<le> e" "e \<le> 971" "n = 53 + e" using n53 n1024 by (simp_all add: e_def)
  have r53: "round53 x = m * 2 ^ e"
    using big x0 by (simp add: round53_def Let_def m_def q_def r_def e_def n_def)
  have q0: "0 \<le> q" using x0 by (simp add: q_def pos_imp_zdiv_nonneg_iff)
  have "x < 2 ^ 53 * 2 ^ e" using bb(2) e1(3) by (simp add: power_add)
  then have xlt: "x < 2 ^ 53 * 2 ^ e" .
  have r0: "0 \<le> r" "r < 2 ^ e" by (simp_all add: r_def)
  have xqr: "x = q * 2 ^ e + r" unfolding q_def r_def by (rule div_mult_mod_eq [symmetric])
  have qlt: "q < 2 ^ 53"
  proof (rule ccontr)
    assume "\<not> q < 2 ^ 53"
    then have "2 ^ 53 \<le> q" by simp
    then have "2 ^ 53 * 2 ^ e \<le> q * 2 ^ e" by (intro mult_right_mono) simp_all
    then show False using xlt xqr r0(1) by linarith
  qed
  have m0: "0 \<le> m" "m \<le> q + 1" using q0 by (simp_all add: m_def)
  have nonneg: "0 \<le> m * 2 ^ e" using m0 by simp
  have upper: "m * 2 ^ e \<le> 2 ^ 1024 - 2 ^ 971"
  proof (cases "e \<le> 970")
    case True
    have "m * 2 ^ e \<le> 2 ^ 53 * 2 ^ e" using m0 qlt by (intro mult_right_mono) simp_all
    also have "\<dots> \<le> 2 ^ 53 * (2::int) ^ 970"
      using True by (intro mult_left_mono power_increasing) simp_all
    also have "\<dots> \<le> 2 ^ 1024 - 2 ^ 971" by simp
    finally show ?thesis .
  next
    case False
    then have e971: "e = 971" using e1 by simp
    show ?thesis
    proof (cases "q + 1 \<le> 2 ^ 53 - 1")
      case True
      have "m * 2 ^ e \<le> (2 ^ 53 - 1) * 2 ^ e" using m0 True by (intro mult_right_mono) simp_all
      also have "\<dots> = 2 ^ 1024 - 2 ^ 971" unfolding e971 by simp
      finally show ?thesis .
    next
      case False
      then have qv: "q = 2 ^ 53 - 1" using qlt by simp
      have "r = x - (2 ^ 53 - 1) * 2 ^ 971" using xqr qv e971 by simp
      then have "r < 2 ^ 970" using xb by simp
      then have "m = q" by (simp add: m_def e971)
      then have "m * 2 ^ e = 2 ^ 1024 - 2 ^ 971" by (simp add: qv e971)
      then show ?thesis by simp
    qed
  qed
  show ?thesis using nonneg upper by (simp add: r53)
qed

lemma fl_exact: "\<bar>x\<bar> \<le> 2 ^ 53 \<Longrightarrow> fl x = Some x"
proof -
  assume a: "\<bar>x\<bar> \<le> 2 ^ 53"
  have "(2::int) ^ 53 < 2 ^ 1024" by simp
  then have "\<bar>x\<bar> < 2 ^ 1024" using a by linarith
  then show ?thesis using a by (simp add: fl_def round53_def)
qed

lemma fl_finite:
  assumes "0 \<le> x" "x < 2 ^ 1024 - 2 ^ 970"
  shows "\<exists>r. fl x = Some r \<and> 0 \<le> r \<and> r \<le> 2 ^ 1024 - 2 ^ 971"
proof -
  have b: "0 \<le> round53 x \<and> round53 x \<le> 2 ^ 1024 - 2 ^ 971"
    using assms by (rule round53_bound)
  then have "\<bar>round53 x\<bar> < 2 ^ 1024" by simp
  then show ?thesis using b by (simp add: fl_def)
qed

lemma rng_step_range:
  assumes lo: "- 609 \<le> s" and hi: "s * 1664525 < 2 ^ 1024 - 2 ^ 970"
  shows "\<exists>s'. rng_step (Finite s) = Finite s' \<and> 0 \<le> s' \<and> s' < 4294967296"
proof (cases "0 \<le> s")
  case True
  then have "0 \<le> s * 1664525" by simp
  then obtain p where p: "fl (s * 1664525) = Some p" "0 \<le> p" "p \<le> 2 ^ 1024 - 2 ^ 971"
    using fl_finite[OF _ hi] by blast
  have "0 \<le> p + 1013904223" "p + 1013904223 < 2 ^ 1024 - 2 ^ 970" using p by simp_all
  then obtain q where q: "fl (p + 1013904223) = Some q" "0 \<le> q"
    using fl_finite by blast
  show ?thesis using p q by (simp add: rng_step_def js_rem_nonneg)
next
  case False
  then have b: "- 609 * 1664525 \<le> s * 1664525" "s * 1664525 < 0" using lo by simp_all
  then have "\<bar>s * 1664525\<bar> \<le> 2 ^ 53" by simp
  then have p: "fl (s * 1664525) = Some (s * 1664525)" by (rule fl_exact)
  have "\<bar>s * 1664525 + 1013904223\<bar> \<le> 2 ^ 53" using b by simp
  then have q: "fl (s * 1664525 + 1013904223) = Some (s * 1664525 + 1013904223)" by (rule fl_exact)
  have "0 \<le> s * 1664525 + 1013904223" using b by simp
  then show ?thesis using p q by (simp add: rng_step_def js_rem_nonneg)
qed

lemma rng_step_exact:
  assumes "- 609 \<le> s" "s * 1664525 + 1013904223 \<le> 2 ^ 53"
  shows "rng_step (Finite s) = exact_step (Finite s)"
proof -
  have b: "- 609 * 1664525 \<le> s * 1664525" using assms(1) by simp
  have "\<bar>s * 1664525\<bar> \<le> 2 ^ 53" using assms(2) b by simp
  then have p: "fl (s * 1664525) = Some (s * 1664525)" by (rule fl_exact)
  have "\<bar>s * 1664525 + 1013904223\<bar> \<le> 2 ^ 53" using assms(2) b by simp
  then have q: "fl (s * 1664525 + 1013904223) = Some (s * 1664525 + 1013904223)" by (rule fl_exact)
  have "0 \<le> s * 1664525 + 1013904223" using b by simp
  then show ?thesis using p q by (simp add: rng_step_def exact_step_def js_rem_nonneg)
qed

lemma rng_state_after_Suc: "rng_state_after seed (Suc n) = rng_step (rng_state_after seed n)"
  by (simp add: rng_state_after_def)

lemma rng_state_after_finite:
  assumes "- 609 \<le> seed" "seed * 1664525 < 2 ^ 1024 - 2 ^ 970"
  shows "\<exists>s. rng_state_after seed n = Finite s \<and> - 609 \<le> s
           \<and> s * 1664525 < 2 ^ 1024 - 2 ^ 970 \<and> (0 < n \<longrightarrow> 0 \<le> s \<and> s < 4294967296)"
proof (induction n)
  case 0
  show ?case using assms by (simp add: rng_state_after_def createRNG_def)
next
  case (Suc n)
  then obtain s where s: "rng_state_after seed n = Finite s" "- 609 \<le> s"
      "s * 1664525 < 2 ^ 1024 - 2 ^ 970" by blast
  obtain s' where s': "rng_step (Finite s) = Finite s'" "0 \<le> s'" "s' < 4294967296"
    using rng_step_range[OF s(2) s(3)] by blast
  have "s' * 1664525 < 4294967296 * 1664525" using s'(3) by simp
  then have "s' * 1664525 < 2 ^ 1024 - 2 ^ 970" by simp
  then show ?case using s s' by (simp add: rng_state_after_Suc)
qed

lemma bitlen_pow2: "bitlen (2 ^ k) = Suc k"
proof (induction k)
  case 0
  show ?case by (simp add: bitlen.simps)
next
  case (Suc k)
  have "bitlen (2 ^ Suc k) = Suc (bitlen (2 ^ Suc k div 2))"
    by (subst bitlen.simps) simp
  then show ?case using Suc by simp
qed

lemma is_double_pow2:
  assumes "k < 1024"
  shows "is_double (2 ^ k)"
proof -
  have lt: "(2::int) ^ k < 2 ^ 1024" using assms by (simp only: power_strict_increasing_iff) 
  have "round53 (2 ^ k) = 2 ^ k"
  proof (cases "k \<le> 53")
    case True
    then have "(2::int) ^ k \<le> 2 ^ 53" by (intro power_increasing) simp_all
    then show ?thesis by (simp add: round53_def)
  next
    case False
    then have k: "53 < k" by simp
    then have "(2::int) ^ 53 < 2 ^ k" by (simp only: power_strict_increasing_iff) 
    then have big: "\<not> \<bar>(2::int) ^ k\<bar> \<le> 2 ^ 53" by simp
    have e: "Suc k - 53 = k - 52" using k by simp
    have kk: "k = 52 + (k - 52)" using k by simp
    have q: "(2::int) ^ k div 2 ^ (k - 52) = 2 ^ 52"
      by (subst kk, subst power_add) simp
    have r: "(2::int) ^ k mod 2 ^ (k - 52) = 0"
      by (subst kk, subst power_add) simp
    have "(2::int) ^ 52 * 2 ^ (k - 52) = 2 ^ (52 + (k - 52))" by (simp only: power_add)
    then have m: "(2::int) ^ 52 * 2 ^ (k - 52) = 2 ^ k" using kk by simp
    have ab: "\<bar>(2::int) ^ k\<bar> = 2 ^ k" by simp
    show ?thesis
      unfolding round53_def Let_def ab bitlen_pow2 e q r using big m by simp
  qed
  then show ?thesis using lt by (simp add: is_double_def fl_def)
qed

lemma round53_overflow:
  assumes "2 ^ 1024 \<le> x"
  shows "2 ^ 1024 \<le> round53 x"
proof -
  define n where "n = bitlen x"
  define e where "e = n - 53"
  define q where "q = x div 2 ^ e"
  define r where "r = x mod 2 ^ e"
  define m where "m = (if r > 2 ^ (e - 1) \<or> (r = 2 ^ (e - 1) \<and> odd q) then q + 1 else q)"
  have "(2::int) ^ 53 < 2 ^ 1024" by simp
  then have big: "2 ^ 53 < x" using assms by linarith
  then have xpos: "0 < x" by simp
  have bb: "2 ^ (n - 1) \<le> x" "x < 2 ^ n" using bitlen_bounds[OF xpos] by (simp_all add: n_def)
  have "(2::int) ^ 1024 < 2 ^ n" using assms bb(2) by linarith
  then have n1024: "1024 < n" by (simp only: power_strict_increasing_iff[of "2::int"])
  then have ne: "n - 1 = 52 + e" by (simp add: e_def)
  have r53: "round53 x = m * 2 ^ e"
    using big xpos by (simp add: round53_def Let_def m_def q_def r_def e_def n_def)
  have "2 ^ 52 * 2 ^ e \<le> x" using bb(1) unfolding ne by (simp add: power_add)
  then have "2 ^ 52 * 2 ^ e div 2 ^ e \<le> q" unfolding q_def by (rule zdiv_mono1) simp
  then have q52: "2 ^ 52 \<le> q" by simp
  then have "2 ^ 52 \<le> m" by (simp add: m_def)
  then have "2 ^ 52 * 2 ^ e \<le> m * 2 ^ e" by (intro mult_right_mono) simp_all
  then have "2 ^ (n - 1) \<le> m * 2 ^ e" unfolding ne by (simp add: power_add)
  moreover have "(2::int) ^ 1024 \<le> 2 ^ (n - 1)" using n1024 by (intro power_increasing) simp_all
  ultimately show ?thesis using r53 by linarith
qed

lemma rng_step_overflow:
  assumes "2 ^ 1024 \<le> s * 1664525"
  shows "rng_state_after s (Suc 0) = NaN \<and> rng_output s 0 = None"
proof -
  have "2 ^ 1024 \<le> round53 (s * 1664525)" using assms by (rule round53_overflow)
  then have "fl (s * 1664525) = None" by (simp add: fl_def)
  then have "rng_step (Finite s) = NaN" by (simp add: rng_step_def)
  then show ?thesis
    by (simp add: rng_state_after_def rng_output_def rng_next_def createRNG_def)
qed

text \<open>
  Claim C9, as the code has it. The seed is an integer that a double holds, at least
  \<open>-609\<close>, and small enough for its product with 1664525 to be a finite double, which is
  \<open>seed * 1664525 < 2 ^ 1024 - 2 ^ 970\<close> (seeds up to about \<open>1.08e302\<close>; every clock value
  is one). Then the value of every call of \<open>next()\<close> lies in \<open>[0, 1)\<close>. The state advances
  as \<open>(state * 1664525 + 1013904223) mod 2 ^ 32\<close> in exact integer arithmetic on every call
  whose sum does not pass \<open>2 ^ 53\<close>: on the first call when
  \<open>seed * 1664525 + 1013904223 \<le> 2 ^ 53\<close> (seeds up to 5411272429), and on every later
  call (for a larger seed the first product is rounded).
\<close>

theorem rng_range_and_step:
  assumes "is_double seed" "- 609 \<le> seed" "seed * 1664525 < 2 ^ 1024 - 2 ^ 970"
  shows "in_unit_interval (rng_output seed n)
       \<and> (seed * 1664525 + 1013904223 \<le> 2 ^ 53 \<or> 0 < n \<longrightarrow>
            rng_state_after seed n \<noteq> NaN
            \<and> rng_state_after seed (Suc n) = exact_step (rng_state_after seed n))"
proof -
  obtain s where s: "rng_state_after seed n = Finite s" "- 609 \<le> s"
      "s * 1664525 < 2 ^ 1024 - 2 ^ 970" "0 < n \<longrightarrow> 0 \<le> s \<and> s < 4294967296"
    using rng_state_after_finite[OF assms(2) assms(3)] by blast
  obtain s' where s': "rng_step (Finite s) = Finite s'" "0 \<le> s'" "s' < 4294967296"
    using rng_step_range[OF s(2) s(3)] by blast
  have lt: "(of_int s' :: rat) < 4294967296"
    using s'(3) by (metis of_int_less_iff of_int_numeral)
  have range: "in_unit_interval (rng_output seed n)"
    using s' lt by (simp add: rng_output_def rng_next_def Let_def s(1) in_unit_interval_def)
  have "seed * 1664525 + 1013904223 \<le> 2 ^ 53 \<or> 0 < n
        \<Longrightarrow> s * 1664525 + 1013904223 \<le> 2 ^ 53"
  proof (cases n)
    case 0
    assume "seed * 1664525 + 1013904223 \<le> 2 ^ 53 \<or> 0 < n"
    then show ?thesis using 0 s(1) by (simp add: rng_state_after_def createRNG_def)
  next
    case (Suc m)
    then have "s < 4294967296" using s(4) by simp
    then have "s * 1664525 < 4294967296 * 1664525" by simp
    then show ?thesis by simp
  qed
  then have "seed * 1664525 + 1013904223 \<le> 2 ^ 53 \<or> 0 < n
        \<Longrightarrow> rng_step (Finite s) = exact_step (Finite s)"
    using rng_step_exact[OF s(2)] by blast
  then show ?thesis using range by (simp add: rng_state_after_Suc s(1))
qed

theorem rng_range_and_step_witness:
  "is_double 12345 \<and> (- 609 :: int) \<le> 12345 \<and> (12345 :: int) * 1664525 < 2 ^ 1024 - 2 ^ 970
   \<and> in_unit_interval (rng_output 12345 0)
   \<and> rng_output 12345 0 = Some (87628868 / 4294967296)
   \<and> rng_state_after 12345 0 = Finite 12345
   \<and> rng_state_after 12345 (Suc 0) = exact_step (Finite 12345)
   \<and> exact_step (Finite 12345) = Finite 87628868"
proof -
  have h: "is_double 12345" "(- 609 :: int) \<le> 12345"
    "(12345 :: int) * 1664525 < 2 ^ 1024 - 2 ^ 970"
    by (simp_all add: is_double_def fl_def round53_def)
  have s0: "rng_state_after 12345 0 = Finite 12345"
    by (simp add: rng_state_after_def createRNG_def)
  have e: "exact_step (Finite 12345) = Finite 87628868" by (simp add: exact_step_def)
  have o: "rng_output 12345 0 = Some (87628868 / 4294967296)"
    by (simp add: rng_output_def rng_next_def s0 rng_step_def fl_def round53_def js_rem_def Let_def)
  show ?thesis using h rng_range_and_step [OF h, of 0] s0 e o by simp
qed

text \<open>
  Claim C9 as stated fails for a negative seed: the remainder keeps the sign of the
  dividend, so with seed \<open>-1000\<close> the first value is \<open>-650620777 / 2 ^ 32\<close>. It fails for
  a large seed: with seed 1762128000001, a clock value, the first state is 2347580928,
  where exact integer arithmetic gives 2347580780. And it fails for a seed whose product
  overflows: with seed \<open>2 ^ 1010\<close> the first state and the first value are \<open>NaN\<close>.
\<close>

theorem rng_seed_counterexample:
  "rng_output (- 1000) 0 = Some (- 650620777 / 4294967296)
   \<and> \<not> in_unit_interval (rng_output (- 1000) 0)
   \<and> rng_state_after 1762128000001 0 = Finite 1762128000001
   \<and> rng_state_after 1762128000001 (Suc 0) = Finite 2347580928
   \<and> exact_step (Finite 1762128000001) = Finite 2347580780
   \<and> is_double (2 ^ 1010)
   \<and> rng_state_after (2 ^ 1010) (Suc 0) = NaN
   \<and> rng_output (2 ^ 1010) 0 = None"
proof -
  have a: "rng_output (- 1000) 0 = Some (- 650620777 / 4294967296)"
    "\<not> in_unit_interval (rng_output (- 1000) 0)"
    by (simp_all add: rng_output_def rng_next_def rng_state_after_def createRNG_def rng_step_def
        fl_def round53_def js_rem_def Let_def in_unit_interval_def)
  have b: "rng_state_after 1762128000001 0 = Finite 1762128000001"
    "rng_state_after 1762128000001 (Suc 0) = Finite 2347580928"
    "exact_step (Finite 1762128000001) = Finite 2347580780"
    by (simp_all add: rng_state_after_def createRNG_def rng_step_def
        fl_def round53_def js_rem_def Let_def bitlen.simps exact_step_def)
  have "(2::int) ^ 1024 \<le> 2 ^ 1010 * 1664525" by simp
  then have c: "rng_state_after (2 ^ 1010) (Suc 0) = NaN \<and> rng_output (2 ^ 1010) 0 = None"
    by (rule rng_step_overflow)
  have d: "is_double (2 ^ 1010)" by (rule is_double_pow2) simp
  show ?thesis using a b c d by blast
qed

section \<open>Properties of the physics functions\<close>

lemma rotate_shape_cw_ccw:
  assumes sq: "\<forall>row \<in> set (shape p). length row = length (shape p)"
  shows "shape (rotatePiece (rotatePiece p 1) (-1)) = shape p"
proof (rule nth_equalityI)
  show "length (shape (rotatePiece (rotatePiece p 1) (- 1))) = length (shape p)"
    by (simp add: rotatePiece_def Let_def)
next
  fix i assume "i < length (shape (rotatePiece (rotatePiece p 1) (- 1)))"
  then have i: "i < length (shape p)" by (simp add: rotatePiece_def Let_def)
  then have li: "length (shape p ! i) = length (shape p)" using sq by simp
  show "shape (rotatePiece (rotatePiece p 1) (- 1)) ! i = shape p ! i"
  proof (rule nth_equalityI)
    show "length (shape (rotatePiece (rotatePiece p 1) (- 1)) ! i) = length (shape p ! i)"
      using i li by (simp add: rotatePiece_def Let_def)
  next
    fix j assume "j < length (shape (rotatePiece (rotatePiece p 1) (- 1)) ! i)"
    then have j: "j < length (shape p)" using i by (simp add: rotatePiece_def Let_def)
    have e: "length (shape p) - Suc (length (shape p) - Suc i) = i" using i by arith
    have k: "length (shape p) - Suc i < length (shape p)" using i by arith
    show "shape (rotatePiece (rotatePiece p 1) (- 1)) ! i ! j = shape p ! i ! j"
      using i j k by (simp add: rotatePiece_def Let_def e)
  qed
qed

lemma rotate_shape_ccw_cw:
  assumes sq: "\<forall>row \<in> set (shape p). length row = length (shape p)"
  shows "shape (rotatePiece (rotatePiece p (-1)) 1) = shape p"
proof (rule nth_equalityI)
  show "length (shape (rotatePiece (rotatePiece p (- 1)) 1)) = length (shape p)"
    by (simp add: rotatePiece_def Let_def)
next
  fix i assume "i < length (shape (rotatePiece (rotatePiece p (- 1)) 1))"
  then have i: "i < length (shape p)" by (simp add: rotatePiece_def Let_def)
  then have li: "length (shape p ! i) = length (shape p)" using sq by simp
  show "shape (rotatePiece (rotatePiece p (- 1)) 1) ! i = shape p ! i"
  proof (rule nth_equalityI)
    show "length (shape (rotatePiece (rotatePiece p (- 1)) 1) ! i) = length (shape p ! i)"
      using i li by (simp add: rotatePiece_def Let_def)
  next
    fix j assume "j < length (shape (rotatePiece (rotatePiece p (- 1)) 1) ! i)"
    then have j: "j < length (shape p)" using i by (simp add: rotatePiece_def Let_def)
    have e: "length (shape p) - Suc (length (shape p) - Suc j) = j" using j by arith
    have k: "length (shape p) - Suc j < length (shape p)" using j by arith
    show "shape (rotatePiece (rotatePiece p (- 1)) 1) ! i ! j = shape p ! i ! j"
      using i j k by (simp add: rotatePiece_def Let_def e)
  qed
qed

lemma rotation_roundtrip:
  assumes "0 \<le> rotation p" and "rotation p \<le> 3"
  shows "rotation (rotatePiece (rotatePiece p 1) (-1)) = rotation p"
    and "rotation (rotatePiece (rotatePiece p (-1)) 1) = rotation p"
proof -
  have "rotation p = 0 \<or> rotation p = 1 \<or> rotation p = 2 \<or> rotation p = 3"
    using assms by arith
  then show "rotation (rotatePiece (rotatePiece p 1) (-1)) = rotation p"
    and "rotation (rotatePiece (rotatePiece p (-1)) 1) = rotation p"
    by (auto simp: rotatePiece_def Let_def js_rem_def)
qed

lemma piece_eq_shape_rotation:
  "ptype q = ptype p \<Longrightarrow> color q = color p \<Longrightarrow> gridX q = gridX p \<Longrightarrow> gridY q = gridY p
   \<Longrightarrow> upMovesUsed q = upMovesUsed p \<Longrightarrow> pgeneration q = pgeneration p
   \<Longrightarrow> shape q = shape p \<Longrightarrow> rotation q = rotation p \<Longrightarrow> q = (p :: piece)"
  by simp

text \<open>
  Claim C7. For every piece whose shape is a square matrix and whose rotation index is
  between 0 and 3, \<open>rotatePiece\<close> by \<open>+1\<close> and then by \<open>-1\<close>, and by \<open>-1\<close> and then by
  \<open>+1\<close>, gives the piece back: the shape, the rotation index and every other field.
\<close>

theorem rotatePiece_inverse:
  assumes "list_all (\<lambda>row. length row = length (shape p)) (shape p)"
    and "0 \<le> rotation p" and "rotation p \<le> 3"
  shows "rotatePiece (rotatePiece p 1) (-1) = p \<and> rotatePiece (rotatePiece p (-1)) 1 = p"
proof
  have sq: "\<forall>row \<in> set (shape p). length row = length (shape p)"
    using assms(1) by (simp add: list_all_iff)
  show "rotatePiece (rotatePiece p 1) (-1) = p"
    by (rule piece_eq_shape_rotation)
       (simp_all add: rotate_shape_cw_ccw[OF sq] rotation_roundtrip(1)[OF assms(2,3)],
        simp_all add: rotatePiece_def Let_def)
  show "rotatePiece (rotatePiece p (-1)) 1 = p"
    by (rule piece_eq_shape_rotation)
       (simp_all add: rotate_shape_ccw_cw[OF sq] rotation_roundtrip(2)[OF assms(2,3)],
        simp_all add: rotatePiece_def Let_def)
qed

theorem rotatePiece_inverse_witness:
  "list_all (\<lambda>row. length row = length (shape (createPiece KT))) (shape (createPiece KT))
   \<and> (0::int) \<le> rotation (createPiece KT) \<and> rotation (createPiece KT) \<le> 3
   \<and> rotatePiece (rotatePiece (createPiece KT) 1) (-1) = createPiece KT
   \<and> rotatePiece (rotatePiece (createPiece KT) (-1)) 1 = createPiece KT"
proof -
  have h1: "list_all (\<lambda>row. length row = length (shape (createPiece KT))) (shape (createPiece KT))"
    by (simp add: createPiece_def PIECE_shape_def)
  have h2: "0 \<le> rotation (createPiece KT)" by (simp add: createPiece_def)
  have h3: "rotation (createPiece KT) \<le> 3" by (simp add: createPiece_def)
  show ?thesis using h1 h2 h3 rotatePiece_inverse [OF h1 h2 h3] by simp
qed

section \<open>The fit test\<close>

lemma list_all_enumerate:
  "list_all P (enumerate 0 xs) = (\<forall>i < length xs. P (i, xs ! i))"
  by (simp add: list_all_length nth_enumerate_eq)

lemma canPieceFitAt_iff:
  "canPieceFitAt b p x y =
     (\<forall>dy < length (shape p). \<forall>dx < length (shape p ! dy).
        shape p ! dy ! dx \<noteq> 0 \<longrightarrow>
          0 \<le> x + int dx \<and> x + int dx < 10
          \<and> (y + int dy < 0 \<or> (y + int dy < 20 \<and> b ! nat (y + int dy) ! nat (x + int dx) = None)))"
proof -
  have c: "(if c = 0 then True
            else let boardX = x + int dx; boardY = y + int dy
                 in if boardX < 0 \<or> boardX \<ge> 10 then False
                    else if boardY < 0 then True
                    else if boardY \<ge> 20 then False
                    else b ! nat boardY ! nat boardX = None)
           = (c \<noteq> 0 \<longrightarrow> 0 \<le> x + int dx \<and> x + int dx < 10
                \<and> (y + int dy < 0
                     \<or> (y + int dy < 20 \<and> b ! nat (y + int dy) ! nat (x + int dx) = None)))"
    for c :: nat and dx dy :: nat
    by (auto simp: Let_def)
  show ?thesis
    unfolding canPieceFitAt_def list_all_enumerate prod.case c ..
qed

text \<open>
  Claim C5. For every board of 20 rows of 10 cells, every piece and every position
  \<open>(x, y)\<close>: if an occupied sub-cell of the shape maps to a column outside \<open>[0, 10)\<close> or to
  a row \<open>\<ge> 20\<close>, the fit test is false; if an occupied sub-cell maps to a non-empty cell
  of the board, the fit test is false; and nothing else makes it false: when every
  occupied sub-cell maps to a column in \<open>[0, 10)\<close> and those with a row \<open>\<ge> 0\<close> map to an
  empty cell in a row below 20, the fit test is true, whatever rows above the board
  (\<open>< 0\<close>) the others map to.
\<close>

theorem canPieceFitAt_bounds:
  assumes "wf_board b"
  shows "(\<forall>dy < length (shape p). \<forall>dx < length (shape p ! dy).
           shape p ! dy ! dx \<noteq> 0 \<longrightarrow>
             (x + int dx < 0 \<or> x + int dx \<ge> 10 \<or> y + int dy \<ge> 20
                \<longrightarrow> \<not> canPieceFitAt b p x y)
           \<and> (0 \<le> x + int dx \<and> x + int dx < 10 \<and> 0 \<le> y + int dy \<and> y + int dy < 20
                \<and> b ! nat (y + int dy) ! nat (x + int dx) \<noteq> None
                \<longrightarrow> \<not> canPieceFitAt b p x y))
       \<and> ((\<forall>dy < length (shape p). \<forall>dx < length (shape p ! dy).
             shape p ! dy ! dx \<noteq> 0 \<longrightarrow>
               0 \<le> x + int dx \<and> x + int dx < 10
               \<and> (0 \<le> y + int dy \<longrightarrow>
                    y + int dy < 20 \<and> b ! nat (y + int dy) ! nat (x + int dx) = None))
            \<longrightarrow> canPieceFitAt b p x y)"
  unfolding canPieceFitAt_iff by (intro conjI allI impI) force+

lemma wf_boards: "wf_board createEmptyBoard" "wf_board spin_board"
  by code_simp+

lemma shape_T: "shape (createPiece KT) = [[0, 1, 0], [1, 1, 1], [0, 0, 0]]"
  by (simp add: createPiece_def PIECE_shape_def)

lemma shape_spin_piece: "shape spin_piece = [[0, 1, 0], [1, 1, 0], [0, 1, 0]]"
  by code_simp

lemma spin_board_cell: "spin_board ! 18 ! 3 = Some ''#FF0000''"
  by code_simp

theorem canPieceFitAt_bounds_witness:
  "wf_board createEmptyBoard \<and> wf_board spin_board
   \<and> \<not> canPieceFitAt createEmptyBoard (createPiece KT) 8 0
   \<and> \<not> canPieceFitAt createEmptyBoard (createPiece KT) 3 19
   \<and> \<not> canPieceFitAt spin_board spin_piece 3 17
   \<and> canPieceFitAt createEmptyBoard (createPiece KT) 3 (-2)"
proof -
  note w = wf_boards
  have a: "\<not> canPieceFitAt createEmptyBoard (createPiece KT) 8 0"
    using canPieceFitAt_bounds [OF w(1), of "createPiece KT" 8 0, THEN conjunct1, rule_format, of 1 2]
    by (simp add: shape_T)
  have b: "\<not> canPieceFitAt createEmptyBoard (createPiece KT) 3 19"
    using canPieceFitAt_bounds [OF w(1), of "createPiece KT" 3 19, THEN conjunct1, rule_format, of 1 0]
    by (simp add: shape_T)
  have c: "\<not> canPieceFitAt spin_board spin_piece 3 17"
    using canPieceFitAt_bounds [OF w(2), of spin_piece 3 17, THEN conjunct1, rule_format, of 1 0]
    by (simp add: shape_spin_piece spin_board_cell)
  have d: "canPieceFitAt createEmptyBoard (createPiece KT) 3 (-2)"
    by (rule canPieceFitAt_bounds [OF w(1), of "createPiece KT" 3 "-2", THEN conjunct2, rule_format])
       (auto simp: shape_T less_Suc_eq numeral_3_eq_3 nth_Cons')
  show ?thesis using w a b c d by simp
qed

section \<open>Properties of the ledger\<close>

lemma validate_loop_append:
  "validate_loop p (xs @ ys)
     = (validate_loop p xs \<and> validate_loop (if xs = [] then p else hash (last xs)) ys)"
  by (induction xs arbitrary: p) auto

lemma validate_addScoreEvent:
  "validateScoreLedger eng \<Longrightarrow> validateScoreLedger (addScoreEvent eng t pts md now)"
  by (simp add: validateScoreLedger_def addScoreEvent_def Let_def validate_loop_append hashEvent_def)

lemma validate_updateFrame:
  "validateScoreLedger eng \<Longrightarrow> validateScoreLedger (updateFrame eng)"
  by (simp add: validateScoreLedger_def updateFrame_def)

lemma validate_run_ledger_ops:
  "validateScoreLedger eng \<Longrightarrow> validateScoreLedger (run_ledger_ops eng ops)"
  by (induction eng ops rule: run_ledger_ops.induct)
     (simp_all add: validate_addScoreEvent validate_updateFrame)

lemma validate_empty: "scoreLedger eng = [] \<Longrightarrow> validateScoreLedger eng"
  by (simp add: validateScoreLedger_def)

lemma validate_set_points:
  assumes v: "validateScoreLedger eng" and i: "i < length (scoreLedger eng)"
  shows "validateScoreLedger (set_points eng i p)
         = (hashEvent ((scoreLedger eng ! i)\<lparr>points := p\<rparr>) (prev_hash (scoreLedger eng) i)
              = hash (scoreLedger eng ! i))"
proof -
  let ?l = "scoreLedger eng"
  let ?e = "?l ! i"
  have split: "?l = take i ?l @ ?e # drop (Suc i) ?l"
    using i by (simp add: id_take_nth_drop)
  have upd: "?l[i := ?e\<lparr>points := p\<rparr>] = take i ?l @ ?e\<lparr>points := p\<rparr> # drop (Suc i) ?l"
    using i by (simp add: upd_conv_take_nth_drop)
  have ph: "(if take i ?l = [] then ''0'' else hash (last (take i ?l))) = prev_hash ?l i"
    using i by (cases i) (auto simp: prev_hash_def last_conv_nth min_def)
  have "validate_loop ''0'' (take i ?l @ ?e # drop (Suc i) ?l)"
    using v split by (simp add: validateScoreLedger_def)
  then have parts: "validate_loop ''0'' (take i ?l)" "validate_loop (hash ?e) (drop (Suc i) ?l)"
    by (auto simp: validate_loop_append split: if_splits)
  have cons: "validate_loop q (e' # ys) = (hash e' = hashEvent e' q \<and> validate_loop (hash e') ys)"
    for q e' ys by simp
  have "validate_loop ''0'' (take i ?l @ ?e\<lparr>points := p\<rparr> # drop (Suc i) ?l)
        = (hash ?e = hashEvent (?e\<lparr>points := p\<rparr>) (prev_hash ?l i))"
    unfolding validate_loop_append ph cons using parts by simp
  then show ?thesis
    unfolding set_points_def validateScoreLedger_def by (simp add: upd eq_commute)
qed

lemma simpleHash_values:
  "simpleHash ''0|0|HARD_DROP|6|{\"rows\":3}'' = ''4a58ece7''"
  "simpleHash ''0|0|HARD_DROP|527065050|{\"rows\":3}'' = ''4a58ece7''"
  "simpleHash ''0|0|HARD_DROP|7|{\"rows\":3}'' \<noteq> ''4a58ece7''"
  by (simp_all add: simpleHash_def simpleHash_loop_def hex_digits.simps)

lemma show_int_values:
  "show_int 0 = ''0''" "show_int 3 = ''3''" "show_int 6 = ''6''" "show_int 7 = ''7''"
  "show_int 527065050 = ''527065050''"
  by (simp_all add: show_int_def show_digits.simps)

lemma hard_drop_ledger_eq:
  "hard_drop_ledger = run_ledger_ops new_ScoringEngine [Add EV_HARD_DROP 6 (MRows 3) 1762128000000]"
  by (simp add: hard_drop_ledger_def scoreHardDrop_def Let_def)

lemma hard_drop_ledger_value:
  "scoreLedger hard_drop_ledger =
     [\<lparr>frame = 0, etype = EV_HARD_DROP, points = 6, metadata = MRows 3,
       timestamp = 1762128000000, hash = ''4a58ece7''\<rparr>]"
  using simpleHash_values(1)
  by (simp add: hard_drop_ledger_def scoreHardDrop_def Let_def addScoreEvent_def
        new_ScoringEngine_def hashEvent_def event_type_name_def stringify_metadata_def
        show_int_values)

lemma hashEvent_hard_drop:
  "hashEvent \<lparr>frame = 0, etype = EV_HARD_DROP, points = 527065050, metadata = MRows 3,
      timestamp = 1762128000000, hash = ''4a58ece7''\<rparr> ''0'' = ''4a58ece7''"
  "hashEvent \<lparr>frame = 0, etype = EV_HARD_DROP, points = 7, metadata = MRows 3,
      timestamp = 1762128000000, hash = ''4a58ece7''\<rparr> ''0'' \<noteq> ''4a58ece7''"
  using simpleHash_values(2,3)
  by (simp_all add: hashEvent_def event_type_name_def stringify_metadata_def show_int_values)

text \<open>
  Claim C4, as the code has it. For every sequence of events appended by \<open>addScoreEvent\<close>
  to an empty ledger, \<open>validateScoreLedger\<close> returns true on the untouched ledger. After
  the \<open>points\<close> field of one event is overwritten, it returns true exactly when the hash
  recomputed for the changed event, from the previous stored hash, equals the hash stored
  in the event: the change is detected unless the 32-bit hashes of the two event strings
  collide.
\<close>

theorem ledger_validation:
  assumes "scoreLedger eng0 = []"
  shows "validateScoreLedger (run_ledger_ops eng0 ops)
       \<and> (\<forall>i < length (scoreLedger (run_ledger_ops eng0 ops)). \<forall>p.
            validateScoreLedger (set_points (run_ledger_ops eng0 ops) i p)
            = (hashEvent ((scoreLedger (run_ledger_ops eng0 ops) ! i)\<lparr>points := p\<rparr>)
                 (prev_hash (scoreLedger (run_ledger_ops eng0 ops)) i)
               = hash (scoreLedger (run_ledger_ops eng0 ops) ! i)))"
  using validate_run_ledger_ops [OF validate_empty [OF assms], of ops]
  by (simp add: validate_set_points)

theorem ledger_validation_witness:
  "scoreLedger new_ScoringEngine = []
   \<and> validateScoreLedger hard_drop_ledger
   \<and> (0::nat) < length (scoreLedger hard_drop_ledger)
   \<and> \<not> validateScoreLedger (set_points hard_drop_ledger 0 7)"
proof -
  have h: "scoreLedger new_ScoringEngine = []" by (simp add: new_ScoringEngine_def)
  have l: "(0::nat) < length (scoreLedger hard_drop_ledger)" by (simp add: hard_drop_ledger_value)
  note t = ledger_validation [OF h, of "[Add EV_HARD_DROP 6 (MRows 3) 1762128000000]",
      folded hard_drop_ledger_eq]
  have v: "validateScoreLedger hard_drop_ledger" using t by simp
  have "validateScoreLedger (set_points hard_drop_ledger 0 7)
        = (hashEvent ((scoreLedger hard_drop_ledger ! 0)\<lparr>points := 7\<rparr>)
             (prev_hash (scoreLedger hard_drop_ledger) 0)
           = hash (scoreLedger hard_drop_ledger ! 0))"
    using t l by blast
  then have "\<not> validateScoreLedger (set_points hard_drop_ledger 0 7)"
    using hashEvent_hard_drop(2) by (simp add: hard_drop_ledger_value prev_hash_def)
  then show ?thesis using h v l by simp
qed

text \<open>
  Claim C4 as stated fails on a hash collision. The ledger holds one event, a hard drop
  of three rows worth 6 points; with the points overwritten by 527065050 the event string
  has the same hash \<open>4a58ece7\<close>, and the tampered ledger validates.
\<close>

theorem ledger_tamper_counterexample:
  "hard_drop_ledger = run_ledger_ops new_ScoringEngine [Add EV_HARD_DROP 6 (MRows 3) 1762128000000]
   \<and> points (scoreLedger hard_drop_ledger ! 0) = 6
   \<and> points (scoreLedger (set_points hard_drop_ledger 0 527065050) ! 0) = 527065050
   \<and> validateScoreLedger (set_points hard_drop_ledger 0 527065050)"
proof -
  have v: "validateScoreLedger (set_points hard_drop_ledger 0 527065050)"
    using hashEvent_hard_drop(1)
    by (simp add: hard_drop_ledger_value set_points_def validateScoreLedger_def)
  have p: "points (scoreLedger hard_drop_ledger ! 0) = 6"
    "points (scoreLedger (set_points hard_drop_ledger 0 527065050) ! 0) = 527065050"
    by (simp_all add: hard_drop_ledger_value set_points_def)
  show ?thesis using hard_drop_ledger_eq p v by blast
qed

section \<open>Evaluating the piece selection\<close>

lemma floor_scaled:
  "\<lfloor>(of_int s / 4294967296 * of_nat n :: rat)\<rfloor> = (s * int n) div 4294967296"
proof -
  have "(of_int s / 4294967296 * of_nat n :: rat) = of_int (s * int n) / of_int 4294967296"
    by simp
  then have "\<lfloor>(of_int s / 4294967296 * of_nat n :: rat)\<rfloor>
             = \<lfloor>(of_int (s * int n) / of_int 4294967296 :: rat)\<rfloor>"
    by (simp only:)
  also have "\<dots> = (s * int n) div 4294967296"
    by (rule floor_divide_of_int_eq)
  finally show ?thesis .
qed

lemma floor_numeral_div:
  "\<lfloor>(numeral a / numeral b :: rat)\<rfloor> = numeral a div numeral b"
  using floor_divide_of_int_eq [of "numeral a" "numeral b", where ?'a = rat] by simp

lemma choice_eval:
  "choice xs r =
     (case rng_step r of
        NaN \<Rightarrow> (None, NaN)
      | Finite s \<Rightarrow>
          (let index = (s * int (length xs)) div 4294967296
           in (if 0 \<le> index \<and> index < int (length xs) then Some (xs ! nat index) else None,
               Finite s)))"
  unfolding choice_def rng_next_def Let_def
  by (cases "rng_step r") (simp_all only: prod.case floor_scaled jsnum.case option.case)

lemma rng_steps_clock_seed:
  "rng_step (Finite 1762128000000) = Finite 2345916416" "rng_step (Finite 2345916416) = Finite 3594578783"
  "rng_step (Finite 3594578783) = Finite 4157194546" "rng_step (Finite 4157194546) = Finite 311013097"
  by (simp_all add: rng_step_def fl_def round53_def js_rem_def bitlen.simps Let_def)

lemma rng_steps_replay_seed:
  "rng_step (Finite 20251103) = Finite 2577786290" "rng_step (Finite 2577786290) = Finite 2445445481"
  "rng_step (Finite 2445445481) = Finite 2437989300" "rng_step (Finite 2437989300) = Finite 3893795715"
  "rng_step (Finite 3893795715) = Finite 928385798" "rng_step (Finite 928385798) = Finite 1741153965"
  by (simp_all add: rng_step_def fl_def round53_def js_rem_def Let_def)

lemma rng_step_12345: "rng_step (Finite 12345) = Finite 87628868"
  by (simp add: rng_step_def fl_def round53_def js_rem_def Let_def)

lemma available_before_start:
  "startTime s = None \<Longrightarrow> progressive (mode s)
   \<Longrightarrow> getAvailablePieces s now = [KI, KO, KT, KL, FLOAT]"
  by (simp add: getAvailablePieces_def calculateSkillScore_def PIECE_PROGRESSION_def)

lemma select_clock_seed:
  "selectWeightedPiece [KI, KO, KT, KL, FLOAT] (Finite 1762128000000) = (Some KL, Finite 3594578783)"
  "selectWeightedPiece [KI, KO, KT, KL, FLOAT] (Finite 3594578783) = (Some KI, Finite 311013097)"
  by (simp_all add: selectWeightedPiece_def rng_next_def Let_def rng_steps_clock_seed
        PIECE_WEIGHTS_def choice_eval nth_append)

lemma select_replay_seed:
  "selectWeightedPiece [KI, KO, KT, KL, FLOAT] (Finite 20251103) = (Some KT, Finite 2445445481)"
  "selectWeightedPiece [KI, KO, KT, KL, FLOAT] (Finite 2445445481) = (Some KL, Finite 3893795715)"
  "selectWeightedPiece [KI, KO, KT, KL, FLOAT] (Finite 3893795715) = (Some KO, Finite 1741153965)"
  "selectWeightedPiece [KI, KO, KT, KL, FLOAT, KJ] (Finite 3893795715) = (Some KT, Finite 1741153965)"
  by (simp_all add: selectWeightedPiece_def rng_next_def Let_def rng_steps_replay_seed
        PIECE_WEIGHTS_def choice_eval nth_append)

lemma select_12345:
  "FLOAT \<in> set av \<Longrightarrow> selectWeightedPiece av (Finite 12345) = (Some FLOAT, Finite 87628868)"
  by (simp add: selectWeightedPiece_def rng_next_def Let_def rng_step_12345)

lemma startGame_menu: "startGame createInitialState 1762128000000 = Inr menu_started"
proof -
  have m: "progressive (mode createInitialState)" by (simp add: createInitialState_def neonDrop_def)
  have t: "startTime createInitialState = None" by (simp add: createInitialState_def)
  have p: "phase createInitialState = MENU" by (simp add: createInitialState_def)
  have r: "rng createInitialState = None" by (simp add: createInitialState_def)
  show ?thesis
    by (simp add: startGame_def p r getNextPiece_def available_before_start m t createRNG_def
          select_clock_seed createPiece_opt_def menu_started_def)
qed

lemma startGame_seeded: "startGame seeded_state 1762128000000 = Inr seeded_started"
proof -
  have m: "progressive (mode seeded_state)"
    by (simp add: seeded_state_def createInitialState_def neonDrop_def)
  have t: "startTime seeded_state = None" by (simp add: seeded_state_def createInitialState_def)
  have p: "phase seeded_state = MENU" by (simp add: seeded_state_def createInitialState_def)
  have r: "rng seeded_state = Some (Finite 20251103)"
    by (simp add: seeded_state_def createInitialState_def createRNG_def)
  show ?thesis
    by (simp add: startGame_def p r getNextPiece_def available_before_start m t
          select_replay_seed createPiece_opt_def seeded_started_def)
qed

lemma seeded_started_fields:
  "progressive (mode seeded_started)" "startTime seeded_started = Some 1762128000000"
  "pieces seeded_started = 1" "lines seeded_started = 0" "combo seeded_started = 0"
  "rng seeded_started = Some (Finite 3893795715)" "phase seeded_started = FALLING"
  "hold seeded_started = None" "canHold seeded_started"
  by (simp_all add: seeded_started_def seeded_state_def createInitialState_def neonDrop_def)

lemma skill_early: "calculateSkillScore seeded_started 1762128000500 = 50"
  by (simp add: calculateSkillScore_def seeded_started_fields Let_def floor_numeral_div)

lemma skill_late: "calculateSkillScore seeded_started 1762128008000 = 6"
  by (simp add: calculateSkillScore_def seeded_started_fields Let_def floor_numeral_div)

lemma available_early:
  "getAvailablePieces seeded_started 1762128000500 = [KI, KO, KT, KL, FLOAT, KJ]"
  by (simp add: getAvailablePieces_def skill_early PIECE_PROGRESSION_def seeded_started_fields)

lemma available_late:
  "getAvailablePieces seeded_started 1762128008000 = [KI, KO, KT, KL, FLOAT]"
  by (simp add: getAvailablePieces_def skill_late PIECE_PROGRESSION_def seeded_started_fields)

lemma getNextPiece_early:
  "getNextPiece seeded_started 1762128000500 = Inr (createPiece KT, Finite 1741153965)"
  by (simp add: getNextPiece_def seeded_started_fields available_early select_replay_seed
        createPiece_opt_def)

lemma getNextPiece_late:
  "getNextPiece seeded_started 1762128008000 = Inr (createPiece KO, Finite 1741153965)"
  by (simp add: getNextPiece_def seeded_started_fields available_late select_replay_seed
        createPiece_opt_def)

text \<open>The clock reaches the selection through the skill score only.\<close>

lemma getNextPiece_clock_via_skill:
  "calculateSkillScore s now1 = calculateSkillScore s now2 \<Longrightarrow> getNextPiece s now1 = getNextPiece s now2"
proof -
  assume "calculateSkillScore s now1 = calculateSkillScore s now2"
  then have "getAvailablePieces s now1 = getAvailablePieces s now2"
    by (simp add: getAvailablePieces_def)
  then show ?thesis by (simp add: getNextPiece_def split: option.splits)
qed

text \<open>
  Claim C1 at a failing input. The generator is seeded with 20251103 and the game is
  started; the first two pieces are a T and an L. The player then presses HOLD, which
  draws the next piece. Pressed 500 ms after the start, the draw sees skill score 50, has
  the J piece available and returns a T; pressed 8000 ms after the start, the same draw,
  from the same generator state, sees skill score 6 and returns an O. The generator itself
  ends in the same state in both runs.
\<close>

theorem piece_selection_reads_clock:
  "startGame seeded_state 1762128000000 = Inr seeded_started
   \<and> map_sum id (\<lambda>s. (map_option ptype (nextPiece s), rng s))
        (handleInput seeded_started HOLD 1762128000500) = Inr (Some KT, Some (Finite 1741153965))
   \<and> map_sum id (\<lambda>s. (map_option ptype (nextPiece s), rng s))
        (handleInput seeded_started HOLD 1762128008000) = Inr (Some KO, Some (Finite 1741153965))"
proof -
  have c: "current seeded_started = Some ((createPiece KT)\<lparr>pgeneration := Some 1, upMovesUsed := 0\<rparr>)"
    "nextPiece seeded_started = Some (createPiece KL)"
    by (simp_all add: seeded_started_def)
  show ?thesis
    by (simp add: startGame_seeded handleInput_def tryHold_def seeded_started_fields c
          getNextPiece_early getNextPiece_late Let_def createPiece_def)
qed

section \<open>The two line-clear sessions\<close>

lemma spin_piece_fields:
  "gridX spin_piece = 3" "gridY spin_piece = 16" "ptype spin_piece = KT"
  "gridX spin_piece_rotated = 3" "gridY spin_piece_rotated = 18" "ptype spin_piece_rotated = KT"
  by (simp_all add: spin_piece_def spin_piece_rotated_def createPiece_def rotatePiece_def Let_def)

lemma spin_board_facts:
  "canPieceFitAt spin_board spin_piece 3 17 = False"
  "tryRotation spin_board spin_piece 1 = Some spin_piece_rotated"
  "canPieceFitAt spin_board spin_piece_rotated 3 19 = False"
  "findClearedLines (placePiece spin_board spin_piece_rotated) = [19]"
  "isPerfectClear (placePiece spin_board spin_piece_rotated) = False"
  "isPerfectClear spin_board = False"
  "canSpawn (removeClearedLines (placePiece spin_board spin_piece_rotated) [19])
     ((createPiece KO)\<lparr>pgeneration := Some 11, upMovesUsed := 0\<rparr>)"
  by code_simp+

lemma spin_corners: "detectSpinBonus spin_rotated (lastMove spin_rotated)"
  by code_simp

lemma last_row_piece_fields:
  "gridX last_row_piece = 0" "gridY last_row_piece = 18" "ptype last_row_piece = KI"
  by (simp_all add: last_row_piece_def createPiece_def)

lemma last_row_board_facts:
  "canPieceFitAt last_row_board last_row_piece 0 19 = False"
  "findClearedLines (placePiece last_row_board last_row_piece) = [19]"
  "isPerfectClear (placePiece last_row_board last_row_piece) = False"
  "isPerfectClear (removeClearedLines (placePiece last_row_board last_row_piece) [19])"
  "canSpawn (removeClearedLines (placePiece last_row_board last_row_piece) [19])
     ((createPiece KO)\<lparr>pgeneration := Some 5, upMovesUsed := 0\<rparr>)"
  by code_simp+

lemma getNextPiece_after_clear:
  "progressive (mode s) \<Longrightarrow> startTime s = Some 1762128000000 \<Longrightarrow> pieces s = 7
   \<Longrightarrow> lines s = 1 \<Longrightarrow> combo s = 1 \<Longrightarrow> rng s = Some (Finite 12345)
   \<Longrightarrow> getNextPiece s 1762128060800 = Inr (createPiece FLOAT, Finite 87628868)"
  "progressive (mode s) \<Longrightarrow> startTime s = Some 1762128000000 \<Longrightarrow> pieces s = 18
   \<Longrightarrow> lines s = 2 \<Longrightarrow> combo s = 2 \<Longrightarrow> rng s = Some (Finite 12345)
   \<Longrightarrow> getNextPiece s 1762128060800 = Inr (createPiece FLOAT, Finite 87628868)"
  by (simp_all add: getNextPiece_def getAvailablePieces_def calculateSkillScore_def
        PIECE_PROGRESSION_def Let_def floor_numeral_div select_12345 createPiece_opt_def)

lemma session_engine_fields:
  "spinBonuses session_engine = 0" "perfectClears session_engine = 0"
  by (simp_all add: session_engine_def addScoreEvent_def new_ScoringEngine_def Let_def)

lemma spin_rotate_step: "handleInput spin_before (ROTATE 1) 1762128060000 = Inr spin_rotated"
  by (simp add: handleInput_def rotate_def spin_before_def spin_rotated_def spin_board_facts
        spin_piece_fields Let_def createInitialState_def)

lemma spin_lock_step: "tick spin_rotated 500 1762128060500 = Inr spin_clearing"
  by (simp add: tick_def processLocking_def lockPiece_def spin_before_def spin_rotated_def
        spin_clearing_def spin_board_facts spin_piece_fields Let_def createInitialState_def
        neonDrop_def)

lemma spin_finish_step:
  "map_sum id (\<lambda>s. (score s, map_option spinBonuses (scoringEngine s)))
     (tick spin_clearing 300 1762128060800) = Inr (400, Some 0)"
  by (simp add: tick_def processClearing_def finishClearing_def scoreLineClears_def
        detectSpinBonus_def spawnNextPiece_def getNextPiece_after_clear spin_board_facts
        Let_def js_index_def addScoreEvent_def updateStats_def session_engine_fields
        spin_clearing_def spin_rotated_def spin_before_def createInitialState_def neonDrop_def)

lemma spin_branch_value:
  "map_sum id fst
     (scoreLineClears session_engine spin_rotated 1 (lastMove spin_rotated) 1762128060800)
   = Inr 400"
proof -
  have f: "level spin_rotated = 1" "combo spin_rotated = 1" "backToBackCounter spin_rotated = None"
    "board spin_rotated = spin_board"
    by (simp_all add: spin_rotated_def spin_before_def createInitialState_def)
  show ?thesis
    using spin_corners
    by (simp add: scoreLineClears_def Let_def js_index_def f spin_board_facts)
qed

text \<open>
  What the two sessions show holds for every lock that clears a line: the state
  \<open>lockPiece\<close> leaves has no current piece and a board with a full row, so the call of
  \<open>scoreLineClears\<close> that \<open>finishClearing\<close> makes on it counts neither a spin nor a
  perfect clear.
\<close>

lemma detectSpinBonus_no_piece: "current s = None \<Longrightarrow> \<not> detectSpinBonus s lm"
  by (simp add: detectSpinBonus_def)

lemma lockPiece_clearing_no_piece:
  "lockPiece s now = Inr s' \<Longrightarrow> phase s' = CLEARING \<Longrightarrow> current s' = None \<and> clearingLines s' = findClearedLines (board s') \<and> clearingLines s' \<noteq> []"
  by (auto simp: lockPiece_def Let_def spawnNextPiece_def gameOver_def split: option.splits if_splits sum.splits prod.splits)

lemma full_row_not_perfect:
  assumes "wf_board b" and "findClearedLines b \<noteq> []"
  shows "\<not> isPerfectClear b"
proof -
  from assms(2) obtain i row where m: "(i, row) \<in> set (enumerate 0 b)" and f: "list_all (\<lambda>c. c \<noteq> None) row"
    by (auto simp: findClearedLines_def filter_empty_conv)
  from m have r: "row \<in> set b" by (auto simp: in_set_enumerate_eq)
  then have "length row = 10" using assms(1) by (simp add: wf_board_def list_all_iff)
  then obtain c cs where "row = c # cs" by (cases row) auto
  then have "\<not> list_all (\<lambda>c. c = None) row" using f by auto
  then show ?thesis using r by (auto simp: isPerfectClear_def list_all_iff)
qed

lemma engine_awards_no_bonus:
  assumes "lockPiece s now = Inr c" and "phase c = CLEARING" and "wf_board (board c)"
    and "scoreLineClears eng c (length (clearingLines c)) (lastMove c) now' = Inr (pts, eng')"
  shows "spinBonuses eng' = spinBonuses eng \<and> perfectClears eng' = perfectClears eng"
proof -
  from lockPiece_clearing_no_piece [OF assms(1,2)]
  have n: "current c = None" and l: "findClearedLines (board c) \<noteq> []" by auto
  have sp: "\<not> detectSpinBonus c (lastMove c)" using n by (rule detectSpinBonus_no_piece)
  have pc: "\<not> isPerfectClear (board c)" using assms(3) l by (rule full_row_not_perfect)
  show ?thesis
    using assms(4) sp pc
    by (auto simp: scoreLineClears_def Let_def addScoreEvent_def
             split: option.splits if_splits prod.splits)
qed

text \<open>
  Claim C2 at a failing input. A T piece is rotated into a pocket where three of the four
  corners around its centre are filled (one block of the board, two below the floor), and
  its lock completes row 19. \<open>scoreLineClears\<close> called on the state that still holds the
  piece takes the spin branch and scores 400 for the line. The engine calls it from
  \<open>finishClearing\<close>, on the state \<open>lockPiece\<close> left, whose current piece is \<open>null\<close>: the
  spin is not detected, the line scores 100 (from 300 to 400) and no spin is counted.
\<close>

theorem spin_bonus_not_awarded:
  "handleInput spin_before (ROTATE 1) 1762128060000 = Inr spin_rotated
   \<and> detectSpinBonus spin_rotated (lastMove spin_rotated)
   \<and> map_sum id fst
        (scoreLineClears session_engine spin_rotated 1 (lastMove spin_rotated) 1762128060800)
      = Inr 400
   \<and> tick spin_rotated 500 1762128060500 = Inr spin_clearing
   \<and> score spin_clearing = 300
   \<and> map_sum id (\<lambda>s. (score s, map_option spinBonuses (scoringEngine s)))
        (tick spin_clearing 300 1762128060800) = Inr (400, Some 0)"
proof -
  have sc: "score spin_clearing = 300"
    by (simp add: spin_clearing_def spin_rotated_def spin_before_def)
  show ?thesis
    using spin_rotate_step spin_corners spin_branch_value spin_lock_step sc spin_finish_step
    by blast
qed

lemma last_row_lock_step: "tick last_row_locking 16 1762128060500 = Inr last_row_clearing"
  by (simp add: tick_def processLocking_def lockPiece_def last_row_locking_def
        last_row_clearing_def last_row_board_facts last_row_piece_fields Let_def
        createInitialState_def neonDrop_def)

lemma last_row_finish_step:
  "map_sum id (\<lambda>s. (score s, isPerfectClear (board s), map_option perfectClears (scoringEngine s)))
     (tick last_row_clearing 300 1762128060800) = Inr (400, True, Some 0)"
  by (simp add: tick_def processClearing_def finishClearing_def scoreLineClears_def
        detectSpinBonus_def spawnNextPiece_def getNextPiece_after_clear last_row_board_facts
        Let_def js_index_def addScoreEvent_def updateStats_def new_ScoringEngine_def
        last_row_clearing_def last_row_locking_def createInitialState_def neonDrop_def)

text \<open>
  Claim C3 at a failing input. An I piece locks into the last row that holds blocks; the
  row is full and is the only row with blocks. When the clear is finished the board is
  empty, but \<open>scoreLineClears\<close> is given the state from before the removal, whose board
  still holds the full row: the perfect-clear test fails, the score goes from 300 to 400
  (the base score of one line at level 1, without the bonus of 800) and no perfect clear
  is counted.
\<close>

theorem perfect_clear_bonus_not_awarded:
  "tick last_row_locking 16 1762128060500 = Inr last_row_clearing
   \<and> score last_row_clearing = 300 \<and> level last_row_clearing = 1
   \<and> map_sum id (\<lambda>s. (score s, isPerfectClear (board s), map_option perfectClears (scoringEngine s)))
        (tick last_row_clearing 300 1762128060800) = Inr (400, True, Some 0)"
proof -
  have sc: "score last_row_clearing = 300" "level last_row_clearing = 1"
    by (simp_all add: last_row_clearing_def last_row_locking_def createInitialState_def)
  show ?thesis
    using last_row_lock_step sc last_row_finish_step by blast
qed

section \<open>Properties of the engine\<close>

lemma gameOver_fields [simp]:
  "phase (gameOver s) = GAME_OVER" "current (gameOver s) = None" "score (gameOver s) = score s"
  by (simp_all add: gameOver_def Let_def)

lemma spawnNextPiece_score:
  "spawnNextPiece s now = Inr s' \<Longrightarrow> score s' = score s"
  by (auto simp: spawnNextPiece_def Let_def split: if_splits option.splits sum.splits prod.splits)

lemma spawnNextPiece_inv2:
  "spawnNextPiece s now = Inr s' \<Longrightarrow> phase s \<noteq> GAME_OVER \<Longrightarrow> piece_phase_inv s'"
  by (auto simp: spawnNextPiece_def piece_phase_inv_def Let_def split: if_splits option.splits sum.splits prod.splits)

lemma lockPiece_inv:
  "lockPiece s now = Inr s' \<Longrightarrow> phase s \<noteq> GAME_OVER \<Longrightarrow> piece_phase_inv s'"
  by (auto simp: lockPiece_def piece_phase_inv_def Let_def dest!: spawnNextPiece_inv2 split: if_splits option.splits)

lemma lockPiece_score:
  "lockPiece s now = Inr s' \<Longrightarrow> score s' = score s"
  by (auto simp: lockPiece_def Let_def dest!: spawnNextPiece_score split: if_splits option.splits)


lemma scoreLineClears_nonneg:
  "scoreLineClears eng s n lm now = Inr (pts, eng') \<Longrightarrow> 0 \<le> level s \<Longrightarrow> 0 \<le> pts"
proof -
  assume r: "scoreLineClears eng s n lm now = Inr (pts, eng')" and l: "0 \<le> level s"
  have spin: "js_index [400, 800, 1200, 1600] i = Some b \<Longrightarrow> 0 \<le> b" for i and b :: int
    by (auto simp: js_index_def nth_Cons' split: if_splits)
  have norm: "js_index [0, 100, 300, 500, 800] i = Some b \<Longrightarrow> 0 \<le> b" for i and b :: int
    by (auto simp: js_index_def nth_Cons' split: if_splits)
  have perf: "0 \<le> ([0, 800, 1200, 1800, 2000] ! min n 4 :: int)"
    by (simp add: nth_Cons' min_def)
  have c: "combo s > 1 \<Longrightarrow> 0 \<le> 50 * combo s * level s" using l by simp
  have d: "0 \<le> b \<Longrightarrow> 0 \<le> b div 2 * level s" for b
    using l by (simp add: pos_imp_zdiv_nonneg_iff)
  have m: "0 \<le> b \<Longrightarrow> 0 \<le> b * level s" for b using l by simp
  have pm: "0 \<le> ([0, 800, 1200, 1800, 2000] ! min n 4) * level s" using perf l by simp
  show ?thesis
    using r spin norm c d m pm
    unfolding scoreLineClears_def Let_def
    by (auto split: option.splits if_splits prod.splits intro!: add_nonneg_nonneg)
qed

lemma finishClearing_score:
  "finishClearing s now = Inr s' \<Longrightarrow> 0 \<le> level s \<Longrightarrow> score s \<le> score s'"
  by (auto simp: finishClearing_def Let_def dest!: spawnNextPiece_score scoreLineClears_nonneg
           split: option.splits sum.splits prod.splits)

lemma finishClearing_inv:
  "finishClearing s now = Inr s' \<Longrightarrow> phase s \<noteq> GAME_OVER \<Longrightarrow> piece_phase_inv s'"
  by (auto simp: finishClearing_def Let_def dest!: spawnNextPiece_inv2
           split: option.splits sum.splits prod.splits)

lemma processFalling_score: "score (processFalling s dt) = score s"
  by (simp add: processFalling_def Let_def split: option.splits)

lemma processFalling_inv:
  "phase s = FALLING \<Longrightarrow> piece_phase_inv s \<Longrightarrow> piece_phase_inv (processFalling s dt)"
  by (auto simp: processFalling_def piece_phase_inv_def Let_def split: option.splits)

lemma processLocking_score:
  "processLocking s dt now = Inr s' \<Longrightarrow> score s' = score s"
  by (auto simp: processLocking_def Let_def dest!: lockPiece_score split: option.splits if_splits)

lemma processLocking_inv:
  "processLocking s dt now = Inr s' \<Longrightarrow> phase s = LOCKING \<Longrightarrow> piece_phase_inv s'"
  by (auto simp: processLocking_def Let_def piece_phase_inv_def dest!: lockPiece_inv split: option.splits if_splits)

lemma tick_score:
  "tick s dt now = Inr s' \<Longrightarrow> 0 \<le> level s \<Longrightarrow> score s \<le> score s'"
  by (auto simp: tick_def processClearing_def Let_def processFalling_score
           dest!: processLocking_score finishClearing_score split: if_splits phase.splits)

lemma tick_inv:
  "tick s dt now = Inr s' \<Longrightarrow> piece_phase_inv s \<Longrightarrow> piece_phase_inv s'"
proof (cases "phase s")
  case FALLING
  assume "tick s dt now = Inr s'" "piece_phase_inv s"
  then show ?thesis using FALLING processFalling_inv[of s dt] by (auto simp: tick_def)
next
  case LOCKING
  assume "tick s dt now = Inr s'" "piece_phase_inv s"
  then show ?thesis using LOCKING processLocking_inv[of s dt now s'] by (auto simp: tick_def)
next
  case CLEARING
  assume "tick s dt now = Inr s'" "piece_phase_inv s"
  then show ?thesis using CLEARING finishClearing_inv[of s now s']
    by (auto simp: tick_def processClearing_def Let_def piece_phase_inv_def split: if_splits)
qed (auto simp: tick_def)

lemma executeMove_score:
  "executeMove s nx ny dx dy now = Inr s' \<Longrightarrow> score s \<le> score s'"
  by (auto simp: executeMove_def Let_def scoreSoftDrop_def split: option.splits if_splits sum.splits)

lemma executeMove_inv:
  "executeMove s nx ny dx dy now = Inr s' \<Longrightarrow> phase s = FALLING \<or> phase s = LOCKING \<Longrightarrow> piece_phase_inv s'"
  by (auto simp: executeMove_def Let_def scoreSoftDrop_def piece_phase_inv_def split: option.splits if_splits sum.splits)

lemma move_score: "move s dx dy now = Inr s' \<Longrightarrow> score s \<le> score s'"
  by (auto simp: move_def Let_def dest!: executeMove_score split: option.splits if_splits)

lemma move_inv:
  "move s dx dy now = Inr s' \<Longrightarrow> phase s = FALLING \<or> phase s = LOCKING \<Longrightarrow> current s \<noteq> None \<Longrightarrow> piece_phase_inv s'"
  by (auto simp: move_def Let_def piece_phase_inv_def dest!: executeMove_inv split: option.splits if_splits)

lemma rotate_score: "rotate s d = Inr s' \<Longrightarrow> score s' = score s"
  by (auto simp: rotate_def Let_def split: option.splits if_splits)

lemma rotate_inv:
  "rotate s d = Inr s' \<Longrightarrow> phase s = FALLING \<or> phase s = LOCKING \<Longrightarrow> current s \<noteq> None \<Longrightarrow> piece_phase_inv s'"
  by (auto simp: rotate_def Let_def piece_phase_inv_def split: option.splits if_splits)

lemma hardDrop_score: "hardDrop s now = Inr s' \<Longrightarrow> score s \<le> score s'"
  by (auto simp: hardDrop_def Let_def scoreHardDrop_def dest!: lockPiece_score split: option.splits if_splits)

lemma hardDrop_inv:
  "hardDrop s now = Inr s' \<Longrightarrow> phase s = FALLING \<or> phase s = LOCKING \<Longrightarrow> piece_phase_inv s'"
  by (auto simp: hardDrop_def Let_def scoreHardDrop_def dest!: lockPiece_inv split: option.splits if_splits)

lemma tryHold_score: "tryHold s now = Inr s' \<Longrightarrow> score s' = score s"
  by (auto simp: tryHold_def Let_def split: option.splits if_splits sum.splits)

lemma tryHold_inv:
  "tryHold s now = Inr s' \<Longrightarrow> piece_phase_inv s \<Longrightarrow> piece_phase_inv s'"
  by (auto simp: tryHold_def Let_def piece_phase_inv_def split: option.splits if_splits sum.splits)

lemma handleInput_score: "handleInput s act now = Inr s' \<Longrightarrow> score s \<le> score s'"
  by (auto simp: handleInput_def dest!: move_score rotate_score hardDrop_score tryHold_score
           split: if_splits option.splits action.splits)

lemma handleInput_inv:
  "handleInput s act now = Inr s' \<Longrightarrow> piece_phase_inv s \<Longrightarrow> piece_phase_inv s'"
  by (auto simp: handleInput_def dest: move_inv rotate_inv hardDrop_inv tryHold_inv
           split: if_splits option.splits action.splits)

lemma startGame_inv:
  "startGame s now = Inr s' \<Longrightarrow> piece_phase_inv s \<Longrightarrow> piece_phase_inv s'"
  by (auto simp: startGame_def Let_def piece_phase_inv_def split: if_splits option.splits sum.splits)

lemma handleAction_inv:
  "handleAction s act now = Inr s' \<Longrightarrow> piece_phase_inv s \<Longrightarrow> piece_phase_inv s'"
  by (cases "phase s")
     (auto simp: handleAction_def dest: startGame_inv handleInput_inv split: if_splits,
      auto simp: piece_phase_inv_def createInitialState_def)


lemma reachable_inv: "reachable s \<Longrightarrow> piece_phase_inv s"
proof (induction rule: reachable.induct)
  case r_init
  show ?case by (simp add: piece_phase_inv_def createInitialState_def)
next
  case (r_start s now s')
  then show ?case by (blast intro: startGame_inv)
next
  case (r_tick s deltaTime now s')
  then show ?case by (blast intro: tick_inv)
next
  case (r_input s act now s')
  then show ?case by (blast intro: handleInput_inv)
next
  case (r_action s act now s')
  then show ?case by (blast intro: handleAction_inv)
next
  case (r_shared s r e)
  then show ?case by (simp add: piece_phase_inv_def)
qed

lemma reachable_menu_started: "reachable menu_started"
  by (rule r_start [OF r_init startGame_menu])

lemma pause_step: "handleAction menu_started ESCAPE 1762128000200 = Inr paused_example"
  by (simp add: handleAction_def menu_started_def paused_example_def)

text \<open>
  Claim C6, as the code has it: in every state reachable from the initial state by
  \<open>startGame\<close>, \<open>tick\<close>, \<open>handleInput\<close> and the action routing of \<open>main.js\<close>, a current
  piece is present if and only if the phase is FALLING, LOCKING or PAUSED.
\<close>

theorem reachable_piece_phase:
  "reachable s \<Longrightarrow>
   (current s \<noteq> None) = (phase s = FALLING \<or> phase s = LOCKING \<or> phase s = PAUSED)"
  using reachable_inv [of s] by (simp add: piece_phase_inv_def)

theorem reachable_piece_phase_witness:
  "reachable menu_started \<and> current menu_started \<noteq> None \<and> phase menu_started = FALLING"
  using reachable_menu_started reachable_piece_phase [OF reachable_menu_started]
  by (simp add: menu_started_def)

text \<open>
  Claim C6 as stated fails when the game is paused: ESCAPE in the FALLING phase sets the
  phase to PAUSED and keeps the current piece.
\<close>

theorem paused_piece_counterexample:
  "reachable paused_example \<and> phase paused_example = PAUSED \<and> current paused_example \<noteq> None
   \<and> \<not> ((current paused_example \<noteq> None)
          = (phase paused_example = FALLING \<or> phase paused_example = LOCKING))"
proof -
  have "reachable paused_example"
    by (rule r_action [OF reachable_menu_started pause_step])
  then show ?thesis by (simp add: paused_example_def menu_started_def)
qed

lemma startGame_level: "startGame s now = Inr s' \<Longrightarrow> 1 \<le> level s \<Longrightarrow> 0 \<le> lines s
   \<Longrightarrow> 1 \<le> level s' \<and> 0 \<le> lines s'"
  by (auto simp: startGame_def Let_def split: if_splits option.splits sum.splits)

lemma spawnNextPiece_level:
  "spawnNextPiece s now = Inr s' \<Longrightarrow> level s' = level s \<and> lines s' = lines s"
  by (auto simp: spawnNextPiece_def gameOver_def Let_def split: if_splits option.splits sum.splits prod.splits)

lemma lockPiece_level:
  "lockPiece s now = Inr s' \<Longrightarrow> level s' = level s \<and> lines s' = lines s"
  by (auto simp: lockPiece_def gameOver_def Let_def dest!: spawnNextPiece_level split: if_splits option.splits)

lemma finishClearing_level:
  "finishClearing s now = Inr s' \<Longrightarrow> 0 \<le> lines s \<Longrightarrow> 1 \<le> level s' \<and> 0 \<le> lines s'"
  by (auto simp: finishClearing_def Let_def pos_imp_zdiv_nonneg_iff dest!: spawnNextPiece_level
           split: option.splits sum.splits prod.splits)

lemma tick_level:
  "tick s dt now = Inr s' \<Longrightarrow> 1 \<le> level s \<Longrightarrow> 0 \<le> lines s \<Longrightarrow> 1 \<le> level s' \<and> 0 \<le> lines s'"
  by (auto simp: tick_def processFalling_def processLocking_def processClearing_def Let_def
           dest!: lockPiece_level finishClearing_level split: if_splits phase.splits option.splits)

lemma handleInput_level:
  "handleInput s act now = Inr s' \<Longrightarrow> level s' = level s \<and> lines s' = lines s"
  by (auto simp: handleInput_def move_def executeMove_def rotate_def hardDrop_def tryHold_def
                 scoreSoftDrop_def scoreHardDrop_def Let_def
           dest!: lockPiece_level
           split: if_splits option.splits action.splits sum.splits prod.splits)

lemma handleAction_level:
  "handleAction s act now = Inr s' \<Longrightarrow> 1 \<le> level s \<Longrightarrow> 0 \<le> lines s
   \<Longrightarrow> 1 \<le> level s' \<and> 0 \<le> lines s'"
  by (cases "phase s")
     (auto simp: handleAction_def createInitialState_def dest: startGame_level handleInput_level
           split: if_splits)

lemma reachable_level: "reachable s \<Longrightarrow> 1 \<le> level s \<and> 0 \<le> lines s"
proof (induction rule: reachable.induct)
  case r_init
  show ?case by (simp add: createInitialState_def)
next
  case (r_start s now s')
  then show ?case by (blast dest: startGame_level)
next
  case (r_tick s deltaTime now s')
  then show ?case by (blast dest: tick_level)
next
  case (r_input s act now s')
  then show ?case using handleInput_level by fastforce
next
  case (r_action s act now s')
  then show ?case by (blast dest: handleAction_level)
next
  case (r_shared s r e)
  then show ?case by simp
qed

lemma empty_board_facts:
  "canPieceFitAt (replicate 20 (replicate 10 None))
     ((createPiece KL)\<lparr>pgeneration := Some 1, upMovesUsed := 0\<rparr>) 3 (-1)"
  "canPieceFitAt (replicate 20 (replicate 10 None))
     ((createPiece KL)\<lparr>pgeneration := Some 1, upMovesUsed := 0, gridY := -1\<rparr>) 3 0"
  "canPieceFitAt (replicate 20 (replicate 10 None))
     ((createPiece KL)\<lparr>pgeneration := Some 1, upMovesUsed := 0, gridX := 0\<rparr>) (-1) (-2) = False"
  by code_simp+

lemma tick_menu_started:
  "tick menu_started 16 1762128000016 = Inr (menu_started\<lparr>gravityAccumulator := 16\<rparr>)"
  by (simp add: tick_def processFalling_def menu_started_def createInitialState_def neonDrop_def
        Let_def)

lemma soft_drop_step: "handleInput menu_started (MOVE 0 1) 1762128000300 = Inr soft_dropped"
proof -
  have p: "(createPiece KL)\<lparr>pgeneration := Some 1, upMovesUsed := 0, gridX := 3, gridY := - 1\<rparr>
           = (createPiece KL)\<lparr>pgeneration := Some 1, upMovesUsed := 0, gridY := - 1\<rparr>"
    by (simp add: createPiece_def PIECE_spawn_def)
  have f: "gridX (createPiece KL) = 3" "gridY (createPiece KL) = -2" "ptype (createPiece KL) = KL"
    by (simp_all add: createPiece_def PIECE_spawn_def)
  show ?thesis
    using empty_board_facts(1,2)
    by (simp add: handleInput_def move_def executeMove_def menu_started_def soft_dropped_def
          createInitialState_def Let_def f p scoreSoftDrop_def)
qed

text \<open>
  The one place where a score could stop being a number is the read of the spin table in
  \<open>scoreLineClears\<close>, which the model reports as \<open>ScoreNaN\<close>. It needs a spin, and so a
  current piece; \<open>finishClearing\<close> runs in the CLEARING phase, where a state that keeps the
  link between piece and phase has none. So neither \<open>tick\<close> nor \<open>handleInput\<close> ends in
  \<open>ScoreNaN\<close> from such a state.
\<close>

lemma getNextPiece_numeric: "getNextPiece s now \<noteq> Inl ScoreNaN"
  by (auto simp: getNextPiece_def Let_def createPiece_opt_def
           split: option.splits if_splits prod.splits sum.splits)

lemma spawnNextPiece_numeric: "spawnNextPiece s now \<noteq> Inl ScoreNaN"
  using getNextPiece_numeric [of s now]
  by (auto simp: spawnNextPiece_def Let_def split: option.splits if_splits prod.splits sum.splits)

lemma lockPiece_numeric: "lockPiece s now \<noteq> Inl ScoreNaN"
  by (auto simp: lockPiece_def Let_def spawnNextPiece_numeric split: option.splits if_splits)

lemma scoreLineClears_numeric:
  "\<not> detectSpinBonus s lm \<Longrightarrow> scoreLineClears eng s n lm now \<noteq> Inl e"
  by (auto simp: scoreLineClears_def Let_def js_index_def min_def
           split: option.splits if_splits prod.splits)

lemma finishClearing_numeric:
  "current s = None \<Longrightarrow> finishClearing s now \<noteq> Inl ScoreNaN"
  using detectSpinBonus_no_piece [of s "lastMove s"]
  by (auto simp: finishClearing_def Let_def spawnNextPiece_numeric scoreLineClears_numeric
           split: option.splits sum.splits prod.splits)

lemma tick_numeric: "piece_phase_inv s \<Longrightarrow> tick s dt now \<noteq> Inl ScoreNaN"
  by (auto simp: tick_def processLocking_def processClearing_def Let_def piece_phase_inv_def
                 lockPiece_numeric finishClearing_numeric
           split: phase.splits option.splits if_splits)

lemma executeMove_numeric: "executeMove s nx ny dx dy now \<noteq> Inl ScoreNaN"
  by (auto simp: executeMove_def Let_def scoreSoftDrop_def
           split: option.splits if_splits sum.splits prod.splits)

lemma move_numeric: "move s dx dy now \<noteq> Inl ScoreNaN"
  by (auto simp: move_def Let_def executeMove_numeric split: option.splits if_splits)

lemma rotate_numeric: "rotate s d \<noteq> Inl ScoreNaN"
  by (auto simp: rotate_def Let_def split: option.splits if_splits)

lemma hardDrop_numeric: "hardDrop s now \<noteq> Inl ScoreNaN"
  by (auto simp: hardDrop_def Let_def lockPiece_numeric split: option.splits if_splits)

lemma tryHold_numeric: "tryHold s now \<noteq> Inl ScoreNaN"
  using getNextPiece_numeric [of s now]
  by (auto simp: tryHold_def Let_def split: option.splits if_splits sum.splits prod.splits)

lemma handleInput_numeric: "handleInput s act now \<noteq> Inl ScoreNaN"
  by (auto simp: handleInput_def move_numeric rotate_numeric hardDrop_numeric tryHold_numeric
           split: option.splits if_splits action.splits)

text \<open>
  Claim C10. In every state reachable from the initial state by \<open>startGame\<close>, \<open>tick\<close>,
  \<open>handleInput\<close> and the action routing of \<open>main.js\<close>, no call of \<open>tick\<close> or
  \<open>handleInput\<close> makes the score \<open>NaN\<close>, and a state that \<open>tick\<close> or \<open>handleInput\<close>
  returns has a score that is greater than or equal to the score of the state passed in.
  A call that throws returns no state.
\<close>

theorem score_monotone:
  assumes "reachable s"
  shows "tick s deltaTime now \<noteq> Inl ScoreNaN
       \<and> handleInput s act now' \<noteq> Inl ScoreNaN
       \<and> (tick s deltaTime now = Inr s' \<longrightarrow> score s \<le> score s')
       \<and> (handleInput s act now' = Inr s'' \<longrightarrow> score s \<le> score s'')"
proof -
  have inv: "piece_phase_inv s" using assms by (rule reachable_inv)
  have lvl: "0 \<le> level s" using reachable_level [OF assms] by simp
  show ?thesis
    using tick_numeric [OF inv] handleInput_numeric tick_score lvl handleInput_score by blast
qed

theorem score_monotone_witness:
  "reachable menu_started
   \<and> tick menu_started 16 1762128000016 = Inr (menu_started\<lparr>gravityAccumulator := 16\<rparr>)
   \<and> score menu_started \<le> score (menu_started\<lparr>gravityAccumulator := 16\<rparr>)
   \<and> handleInput menu_started (MOVE 0 1) 1762128000300 = Inr soft_dropped
   \<and> score menu_started \<le> score soft_dropped
   \<and> score menu_started = 0 \<and> score soft_dropped = 1"
proof -
  have v: "score menu_started = 0" "score soft_dropped = 1"
    by (simp_all add: menu_started_def soft_dropped_def)
  show ?thesis
    using reachable_menu_started v tick_menu_started soft_drop_step
      score_monotone [OF reachable_menu_started, of 16 1762128000016 "MOVE 0 1" 1762128000300
        "menu_started\<lparr>gravityAccumulator := 16\<rparr>" soft_dropped]
    by blast
qed

section \<open>Input that is ignored\<close>

lemma move_blocked:
  "current s = Some p \<Longrightarrow> move_rejected s p dx dy
   \<Longrightarrow> move s dx dy now = Inr (s\<lparr>lastMove := Some (LM_Blocked dx dy (dx \<noteq> 0) (dy > 0) (dy < 0))\<rparr>)"
  by (auto simp: move_def move_rejected_def Let_def)

text \<open>
  Claim C8, as the code has it. \<open>handleInput\<close> returns the state unchanged, in every
  field, when the phase is neither FALLING nor LOCKING, when there is no current piece,
  and when the action type is one it does not know. A movement that the fit test rejects
  (and the FLOAT drift does not cover), whether sent as MOVE or as UP_PRESSED for a FLOAT
  piece with up-moves left, changes one field: the last-move descriptor becomes a MOVE
  record with the offsets and the flags \<open>hitWall\<close>, \<open>hitFloor\<close> and \<open>hitCeiling\<close>.
\<close>

theorem handleInput_ignored:
  "(phase s \<noteq> FALLING \<and> phase s \<noteq> LOCKING \<longrightarrow> handleInput s act now = Inr s)
   \<and> (current s = None \<longrightarrow> handleInput s act now = Inr s)
   \<and> (act = SPACE \<or> act = ENTER \<or> act = ESCAPE \<or> act = OTHER tag
        \<longrightarrow> handleInput s act now = Inr s)
   \<and> ((phase s = FALLING \<or> phase s = LOCKING) \<and> current s = Some p \<and> move_rejected s p dx dy
        \<longrightarrow> handleInput s (MOVE dx dy) now
            = Inr (s\<lparr>lastMove := Some (LM_Blocked dx dy (dx \<noteq> 0) (dy > 0) (dy < 0))\<rparr>))
   \<and> ((phase s = FALLING \<or> phase s = LOCKING) \<and> current s = Some p \<and> ptype p = FLOAT
        \<and> upMovesUsed p < 7 \<and> move_rejected s p 0 (-1)
        \<longrightarrow> handleInput s UP_PRESSED now
            = Inr (s\<lparr>lastMove := Some (LM_Blocked 0 (-1) False False True)\<rparr>))"
proof (intro conjI impI)
  show "handleInput s act now = Inr s" if "phase s \<noteq> FALLING \<and> phase s \<noteq> LOCKING"
    using that by (simp add: handleInput_def)
  show "handleInput s act now = Inr s" if "current s = None"
    using that by (simp add: handleInput_def)
  show "handleInput s act now = Inr s"
    if "act = SPACE \<or> act = ENTER \<or> act = ESCAPE \<or> act = OTHER tag"
    using that by (auto simp: handleInput_def split: option.splits)
  show "handleInput s (MOVE dx dy) now
        = Inr (s\<lparr>lastMove := Some (LM_Blocked dx dy (dx \<noteq> 0) (dy > 0) (dy < 0))\<rparr>)"
    if "(phase s = FALLING \<or> phase s = LOCKING) \<and> current s = Some p \<and> move_rejected s p dx dy"
    using that move_blocked [of s p dx dy now] by (auto simp: handleInput_def)
  show "handleInput s UP_PRESSED now = Inr (s\<lparr>lastMove := Some (LM_Blocked 0 (-1) False False True)\<rparr>)"
    if "(phase s = FALLING \<or> phase s = LOCKING) \<and> current s = Some p \<and> ptype p = FLOAT
        \<and> upMovesUsed p < 7 \<and> move_rejected s p 0 (-1)"
    using that move_blocked [of s p 0 "-1" now] by (auto simp: handleInput_def)
qed

lemma at_wall_fields:
  "phase at_wall = FALLING" "current at_wall = Some wall_piece"
  "board at_wall = replicate 20 (replicate 10 None)"
  "lastMove at_wall = Some (LM_Move (-1) 0 False)"
  by (simp_all add: at_wall_def menu_started_def wall_piece_def)

lemma wall_piece_fields: "gridX wall_piece = 0" "gridY wall_piece = -2" "ptype wall_piece = KL"
  by (simp_all add: wall_piece_def createPiece_def PIECE_spawn_def)

lemma wall_piece_blocked:
  "canPieceFitAt (replicate 20 (replicate 10 None)) wall_piece (-1) (-2) = False"
  by code_simp

lemma at_wall_rejected: "move_rejected at_wall wall_piece (-1) 0"
  by (simp add: move_rejected_def at_wall_fields wall_piece_fields wall_piece_blocked)

lemma float_under_fields:
  "phase float_under = LOCKING" "current float_under = Some float_piece"
  "board float_under = spin_board"
  by (simp_all add: float_under_def spin_before_def)

lemma float_piece_fields:
  "gridX float_piece = 3" "gridY float_piece = 19" "ptype float_piece = FLOAT"
  "upMovesUsed float_piece = 0"
  by (simp_all add: float_piece_def createPiece_def)

lemma float_piece_blocked: "canPieceFitAt spin_board float_piece 3 18 = False"
  by code_simp

lemma float_under_rejected: "move_rejected float_under float_piece 0 (-1)"
  by (simp add: move_rejected_def float_under_fields float_piece_fields float_piece_blocked)

theorem handleInput_ignored_witness:
  "phase createInitialState \<noteq> FALLING \<and> phase createInitialState \<noteq> LOCKING
   \<and> current createInitialState = None
   \<and> handleInput createInitialState (MOVE 1 0) 1762128000000 = Inr createInitialState
   \<and> handleInput at_wall (OTHER ''KEY_Q'') 1762128000900 = Inr at_wall
   \<and> phase at_wall = FALLING \<and> current at_wall = Some wall_piece
   \<and> move_rejected at_wall wall_piece (-1) 0
   \<and> handleInput at_wall (MOVE (-1) 0) 1762128000900
       = Inr (at_wall\<lparr>lastMove := Some (LM_Blocked (-1) 0 True False False)\<rparr>)
   \<and> phase float_under = LOCKING \<and> current float_under = Some float_piece
   \<and> ptype float_piece = FLOAT \<and> upMovesUsed float_piece < 7
   \<and> move_rejected float_under float_piece 0 (-1)
   \<and> handleInput float_under UP_PRESSED 1762128060000
       = Inr (float_under\<lparr>lastMove := Some (LM_Blocked 0 (-1) False False True)\<rparr>)"
proof -
  have a: "phase createInitialState \<noteq> FALLING \<and> phase createInitialState \<noteq> LOCKING"
    and b: "current createInitialState = None"
    by (simp_all add: createInitialState_def)
  show ?thesis
    using a b at_wall_fields(1,2) at_wall_rejected
      float_under_fields(1,2) float_piece_fields(3,4) float_under_rejected
      handleInput_ignored [of createInitialState "MOVE 1 0" 1762128000000]
      handleInput_ignored [of at_wall "OTHER ''KEY_Q''" 1762128000900 "''KEY_Q''" wall_piece "-1" 0]
      handleInput_ignored [of float_under UP_PRESSED 1762128060000 _ float_piece]
    by simp
qed

text \<open>The state \<open>at_wall\<close> is the started session after three moves to the left.\<close>

lemma left_fits:
  assumes "shape p = [[0, 0, 1], [1, 1, 1], [0, 0, 0]]"
  shows "canPieceFitAt (replicate 20 (replicate 10 None)) p 2 (-2)"
    "canPieceFitAt (replicate 20 (replicate 10 None)) p 1 (-2)"
    "canPieceFitAt (replicate 20 (replicate 10 None)) p 0 (-2)"
    "canPieceFitAt (replicate 20 (replicate 10 None)) p 2 (-1)"
    "canPieceFitAt (replicate 20 (replicate 10 None)) p 1 (-1)"
    "canPieceFitAt (replicate 20 (replicate 10 None)) p 0 (-1)"
  by (simp_all add: canPieceFitAt_def assms enumerate_eq_zip upt_rec)

lemma left_move_step:
  assumes "x = 3 \<or> x = 2 \<or> x = 1"
  shows "handleInput
           (menu_started\<lparr>current := Some ((createPiece KL)\<lparr>pgeneration := Some 1, upMovesUsed := 0, gridX := x\<rparr>),
              lastMove := lm\<rparr>) (MOVE (-1) 0) now
         = Inr (menu_started\<lparr>current := Some ((createPiece KL)\<lparr>pgeneration := Some 1, upMovesUsed := 0, gridX := x - 1\<rparr>),
              lastMove := Some (LM_Move (-1) 0 False)\<rparr>)"
proof -
  have f: "gridY (createPiece KL) = -2" "ptype (createPiece KL) = KL"
    "shape (createPiece KL) = [[0, 0, 1], [1, 1, 1], [0, 0, 0]]"
    by (simp_all add: createPiece_def PIECE_spawn_def PIECE_shape_def)
  show ?thesis
    using assms
    by (auto simp: handleInput_def move_def executeMove_def menu_started_def
          createInitialState_def Let_def f left_fits)
qed

lemma menu_started_as_column:
  "menu_started = menu_started\<lparr>current := Some ((createPiece KL)\<lparr>pgeneration := Some 1, upMovesUsed := 0, gridX := 3\<rparr>),
      lastMove := None\<rparr>"
  by (simp add: menu_started_def createInitialState_def createPiece_def PIECE_spawn_def)

lemma reachable_at_wall: "reachable at_wall"
proof -
  note r0 = reachable_menu_started
  let ?st = "\<lambda>x lm. menu_started\<lparr>current := Some ((createPiece KL)\<lparr>pgeneration := Some 1, upMovesUsed := 0, gridX := x\<rparr>), lastMove := lm\<rparr>"
  have r3: "reachable (?st 3 None)" using r0 menu_started_as_column by simp
  have r2: "reachable (?st 2 (Some (LM_Move (-1) 0 False)))"
    using r_input [OF r3 left_move_step [of 3 None 1762128000600]] by simp
  have r1: "reachable (?st 1 (Some (LM_Move (-1) 0 False)))"
    using r_input [OF r2 left_move_step [of 2 _ 1762128000700]] by simp
  have "reachable (?st 0 (Some (LM_Move (-1) 0 False)))"
    using r_input [OF r1 left_move_step [of 1 _ 1762128000800]] by simp
  then show ?thesis by (simp add: at_wall_def wall_piece_def)
qed

text \<open>
  Claim C8 as stated fails for a rejected movement: with the piece at the left wall, a
  move to the left is rejected by the fit test, and the state returned differs from the
  state passed in, in the last-move descriptor.
\<close>

theorem blocked_move_counterexample:
  "reachable at_wall \<and> phase at_wall = FALLING \<and> current at_wall = Some wall_piece
   \<and> \<not> canPieceFitAt (board at_wall) wall_piece (gridX wall_piece + (-1)) (gridY wall_piece + 0)
   \<and> ptype wall_piece \<noteq> FLOAT
   \<and> handleInput at_wall (MOVE (-1) 0) 1762128000900 \<noteq> Inr at_wall
   \<and> map_sum id lastMove (handleInput at_wall (MOVE (-1) 0) 1762128000900)
       = Inr (Some (LM_Blocked (-1) 0 True False False))
   \<and> lastMove at_wall = Some (LM_Move (-1) 0 False)"
proof -
  have r: "handleInput at_wall (MOVE (-1) 0) 1762128000900
           = Inr (at_wall\<lparr>lastMove := Some (LM_Blocked (-1) 0 True False False)\<rparr>)"
    using move_blocked [OF at_wall_fields(2) at_wall_rejected, of 1762128000900]
    by (simp add: handleInput_def at_wall_fields)
  have d: "at_wall\<lparr>lastMove := Some (LM_Blocked (-1) 0 True False False)\<rparr> \<noteq> at_wall"
  proof
    assume "at_wall\<lparr>lastMove := Some (LM_Blocked (-1) 0 True False False)\<rparr> = at_wall"
    then have "lastMove (at_wall\<lparr>lastMove := Some (LM_Blocked (-1) 0 True False False)\<rparr>)
               = lastMove at_wall" by simp
    then show False by (simp add: at_wall_fields)
  qed
  show ?thesis
    using d reachable_at_wall by (simp add: r at_wall_fields wall_piece_fields wall_piece_blocked)
qed

end
